theory Spec2Isabelle
  imports Complex_Main
begin

section \<open>Aither agent orchestration: a shallow embedding\<close>

text \<open>
  The theory embeds the agent layer of the repository: the shared types and the risk
  scorer of \<^verbatim>\<open>BaseAgent\<close>, the \<^verbatim>\<open>AgentRegistry\<close>, the plan loops and the
  per-user memory of \<^verbatim>\<open>CoreRouter\<close>, and the \<^verbatim>\<open>simulate\<close>/\<^verbatim>\<open>execute\<close> methods of
  the five agents.

  Conventions of the embedding.
  \<^item> A JavaScript \<^verbatim>\<open>number\<close> is a \<^typ>\<open>real\<close>: rounding, the infinities and NaN are
    outside the model.
  \<^item> A value of unknown type (\<^verbatim>\<open>unknown\<close>, an entry of \<^verbatim>\<open>Record<string, unknown>\<close>)
    is a \<open>jsval\<close>; an object read at a missing key gives \<open>JUndefined\<close>.
  \<^item> A \<^verbatim>\<open>throw\<close> is the left summand of a result \<open>js_error + 'a\<close>; a rejected promise
    of an \<^verbatim>\<open>async\<close> method is the same value, since every caller awaits it.
  \<^item> A JavaScript \<^verbatim>\<open>Map\<close> is an association list in insertion order.
  \<^item> What the repository takes from its runtime and libraries (zod's message text,
    ethers' encoders, string conversion of numbers, the clock, the random source, the
    demo payloads of the read-only agents) is a field of the record \<open>Env\<close>.
\<close>

subsection \<open>Values, errors and the JavaScript Map\<close>

datatype jsval =
    JUndefined
  | JNull
  | JBool bool
  | JNum real
  | JStr string
  | JArr "jsval list"
  | JObj "(string \<times> jsval) list"

text \<open>Truthiness, as \<^verbatim>\<open>!x\<close>, \<^verbatim>\<open>x || y\<close> and \<^verbatim>\<open>if (x)\<close> read it.\<close>

fun truthy :: "jsval \<Rightarrow> bool" where
  "truthy JUndefined = False"
| "truthy JNull = False"
| "truthy (JBool b) = b"
| "truthy (JNum r) = (r \<noteq> 0)"
| "truthy (JStr s) = (s \<noteq> [])"
| "truthy (JArr xs) = True"
| "truthy (JObj kvs) = True"

text \<open>\<^verbatim>\<open>a || b\<close> on values.\<close>

definition js_or :: "jsval \<Rightarrow> jsval \<Rightarrow> jsval" where
  "js_or a b = (if truthy a then a else b)"

text \<open>
  A thrown value. \<open>Error m\<close> is \<^verbatim>\<open>new Error(m)\<close>; \<open>TypeError m\<close> is the engine's own error
  for a call of something that is not a function (it is an \<^verbatim>\<open>Error\<close> too, and \<open>m\<close> records
  what was called); \<open>NonError\<close> is any thrown value that is not an \<^verbatim>\<open>Error\<close>.
\<close>

datatype js_error = Error string | TypeError string | NonError

text \<open>\<^verbatim>\<open>error instanceof Error ? error.message : 'Unknown error'\<close>\<close>

fun error_message :: "js_error \<Rightarrow> string" where
  "error_message (Error m) = m"
| "error_message (TypeError m) = m"
| "error_message NonError = ''Unknown error''"

text \<open>Sequencing of computations that may throw.\<close>

definition and_then :: "js_error + 'a \<Rightarrow> ('a \<Rightarrow> js_error + 'b) \<Rightarrow> js_error + 'b" where
  "and_then m f = (case m of Inl e \<Rightarrow> Inl e | Inr x \<Rightarrow> f x)"

text \<open>\<^verbatim>\<open>Map.prototype.set\<close>: an existing key keeps its position, a new key goes last.\<close>

fun Map_set :: "'k \<Rightarrow> 'v \<Rightarrow> ('k \<times> 'v) list \<Rightarrow> ('k \<times> 'v) list" where
  "Map_set k v [] = [(k, v)]"
| "Map_set k v ((k', v') # kvs) =
     (if k' = k then (k, v) # kvs else (k', v') # Map_set k v kvs)"

fun Map_get :: "('k \<times> 'v) list \<Rightarrow> 'k \<Rightarrow> 'v option" where
  "Map_get [] k = None"
| "Map_get ((k', v') # kvs) k = (if k' = k then Some v' else Map_get kvs k)"

definition Map_delete :: "'k \<Rightarrow> ('k \<times> 'v) list \<Rightarrow> ('k \<times> 'v) list" where
  "Map_delete k kvs = filter (\<lambda>kv. fst kv \<noteq> k) kvs"

definition Map_values :: "('k \<times> 'v) list \<Rightarrow> 'v list" where
  "Map_values kvs = map snd kvs"

subsection \<open>The shared types of the agent system\<close>

datatype RiskLevel = LOW | MEDIUM | HIGH | CRITICAL

datatype Priority = PriorityLow | PriorityMedium | PriorityHigh

record AgentIntent =
  intent_id :: string
  userAddress :: string
  description :: string
  parameters :: "string \<Rightarrow> jsval"
  maxGas :: real
  maxValue :: real
  deadline :: real
  slippage :: "real option"
  priority :: "Priority option"

record CallData =
  cd_target :: string
  cd_data :: string
  cd_value :: real
  cd_description :: string
  cd_gasLimit :: "real option"

record CallResult =
  cr_success :: bool
  cr_gasUsed :: real
  cr_returnData :: "string option"
  cr_error :: "string option"

record SimulationResult =
  success :: bool
  gasEstimate :: real
  valueEstimate :: real
  risk :: RiskLevel
  calls :: "CallData list"
  justification :: string
  warnings :: "string list"
  confidence :: real

record ExecutionResult =
  ex_success :: bool
  ex_transactionHash :: "string option"
  ex_gasUsed :: "real option"
  ex_valueTransferred :: "real option"
  ex_calls :: "CallResult list"
  ex_error :: "string option"
  ex_timestamp :: real
  ex_explorerUrl :: "string option"

text \<open>
  The interface \<^verbatim>\<open>Agent\<close>. The methods run against the world \<open>'w\<close> (caches, clock,
  network) and may change it; each either returns its result or throws. \<^verbatim>\<open>explain\<close> is
  not called by the code embedded here and is left out.
\<close>

record 'w Agent =
  agent_id :: string
  agent_name :: string
  capabilities :: "string list"
  simulate :: "AgentIntent \<Rightarrow> 'w \<Rightarrow> (js_error + SimulationResult) \<times> 'w"
  execute :: "AgentIntent \<Rightarrow> 'w \<Rightarrow> (js_error + ExecutionResult) \<times> 'w"

subsection \<open>BaseAgent: intent validation and the risk scorer\<close>

text \<open>
  \<^verbatim>\<open>AgentIntentSchema\<close>. The field types are those of the record; what is left of the
  schema are the three range checks: \<^verbatim>\<open>maxGas\<close> positive, \<^verbatim>\<open>maxValue\<close> non-negative,
  \<^verbatim>\<open>slippage\<close> (when present) between 0 and 100.
\<close>

datatype ZodIssue = too_small string | too_big string

definition AgentIntentSchema_safeParse :: "AgentIntent \<Rightarrow> ZodIssue list" where
  "AgentIntentSchema_safeParse intent =
     (if maxGas intent > 0 then [] else [too_small ''maxGas'']) @
     (if maxValue intent \<ge> 0 then [] else [too_small ''maxValue'']) @
     (case slippage intent of
        None \<Rightarrow> []
      | Some s \<Rightarrow> (if s \<ge> 0 then [] else [too_small ''slippage'']) @
                  (if s \<le> 100 then [] else [too_big ''slippage'']))"

text \<open>
  \<^verbatim>\<open>validateIntent\<close> throws \<^verbatim>\<open>Error(`Invalid intent: ${result.error.message}`)\<close> when the
  parse fails; \<open>zodMessage\<close> is zod's rendering of the issues.
\<close>

definition validateIntent :: "(ZodIssue list \<Rightarrow> string) \<Rightarrow> AgentIntent \<Rightarrow> js_error + unit" where
  "validateIntent zodMessage intent =
     (let issues = AgentIntentSchema_safeParse intent
      in if issues \<noteq> [] then Inl (Error (''Invalid intent: '' @ zodMessage issues))
         else Inr ())"

text \<open>\<^verbatim>\<open>calculateRisk(valueAtRisk, complexity, priceImpact = 0)\<close>; \<open>None\<close> is the omitted
  third argument.\<close>

definition calculateRisk :: "real \<Rightarrow> real \<Rightarrow> real option \<Rightarrow> RiskLevel" where
  "calculateRisk valueAtRisk complexity priceImpact_arg =
     (let priceImpact = (case priceImpact_arg of None \<Rightarrow> 0 | Some p \<Rightarrow> p);
          riskScore0 = (0::real);
          riskScore1 = (if valueAtRisk > 10000 then riskScore0 + 40
                        else if valueAtRisk > 1000 then riskScore0 + 20
                        else if valueAtRisk > 100 then riskScore0 + 10
                        else riskScore0);
          riskScore2 = riskScore1 + min (complexity * 10) 30;
          riskScore = riskScore2 + min (priceImpact * 100) 30
      in if riskScore \<ge> 70 then CRITICAL
         else if riskScore \<ge> 50 then HIGH
         else if riskScore \<ge> 25 then MEDIUM
         else LOW)"

subsection \<open>AgentRegistry\<close>

text \<open>The registry is its one field, the Map \<^verbatim>\<open>agents\<close> from agent id to agent.\<close>

type_synonym 'w AgentRegistry = "(string \<times> 'w Agent) list"

definition register :: "'w Agent \<Rightarrow> 'w AgentRegistry \<Rightarrow> 'w AgentRegistry" where
  "register agent agents = Map_set (agent_id agent) agent agents"

definition get :: "'w AgentRegistry \<Rightarrow> string \<Rightarrow> 'w Agent option" where
  "get agents ident = Map_get agents ident"

definition getByCapability :: "'w AgentRegistry \<Rightarrow> string \<Rightarrow> 'w Agent list" where
  "getByCapability agents capability =
     filter (\<lambda>agent. capability \<in> set (capabilities agent)) (Map_values agents)"

definition getAll :: "'w AgentRegistry \<Rightarrow> 'w Agent list" where
  "getAll agents = Map_values agents"

definition unregister :: "string \<Rightarrow> 'w AgentRegistry \<Rightarrow> 'w AgentRegistry" where
  "unregister ident agents = Map_delete ident agents"

text \<open>A call of the registry's mutating interface, and the state a sequence of calls
  leaves when it starts from the empty registry of \<^verbatim>\<open>new AgentRegistry()\<close>.\<close>

datatype 'w RegistryCall = Register "'w Agent" | Unregister string

fun registry_call :: "'w RegistryCall \<Rightarrow> 'w AgentRegistry \<Rightarrow> 'w AgentRegistry" where
  "registry_call (Register agent) agents = register agent agents"
| "registry_call (Unregister ident) agents = unregister ident agents"

definition registry_after :: "'w RegistryCall list \<Rightarrow> 'w AgentRegistry" where
  "registry_after cs = foldl (\<lambda>agents c. registry_call c agents) [] cs"


text \<open>
  The invariant of every registry the interface can build: the keys are distinct and each
  agent is stored under its own id.
\<close>

definition registry_inv :: "'w AgentRegistry \<Rightarrow> bool" where
  "registry_inv agents =
     (distinct (map fst agents) \<and> list_all (\<lambda>kv. fst kv = agent_id (snd kv)) agents)"

subsection \<open>CoreRouter: capability inference\<close>

text \<open>
  \<^verbatim>\<open>String.prototype.toLowerCase\<close> and \<^verbatim>\<open>String.prototype.includes\<close>. A string is its
  list of bytes, so only the letters A to Z change case.
\<close>

definition toLowerCase_char :: "char \<Rightarrow> char" where
  "toLowerCase_char c =
     (case map_of (zip ''ABCDEFGHIJKLMNOPQRSTUVWXYZ'' ''abcdefghijklmnopqrstuvwxyz'') c of
        None \<Rightarrow> c
      | Some l \<Rightarrow> l)"

definition toLowerCase :: "string \<Rightarrow> string" where
  "toLowerCase s = map toLowerCase_char s"

fun str_includes :: "string \<Rightarrow> string \<Rightarrow> bool" where
  "str_includes [] sub = (sub = [])"
| "str_includes (c # s) sub = (take (length sub) (c # s) = sub \<or> str_includes s sub)"

definition inferCapabilityFromStep :: "AgentIntent \<Rightarrow> string" where
  "inferCapabilityFromStep step =
     (let operation = parameters step ''operation'';
          desc = toLowerCase (description step)
      in if str_includes desc ''swap'' \<or> operation = JStr ''swap'' then ''swap''
         else if operation = JStr ''stake'' then ''stake''
         else if operation = JStr ''unstake'' then ''unstake''
         else if operation = JStr ''claim_rewards'' then ''stake''
         else if str_includes desc ''portfolio'' \<or> operation = JStr ''get_balances'' \<or>
                 operation = JStr ''get_pnl'' \<or> operation = JStr ''get_positions''
           then ''portfolio_analysis''
         else if operation = JStr ''market_data'' \<or> operation = JStr ''news'' \<or>
                 operation = JStr ''token_analysis'' \<or> operation = JStr ''protocol_analysis''
           then ''market_research''
         else if operation = JStr ''decode_transaction'' \<or> operation = JStr ''analyze_gas'' \<or>
                 operation = JStr ''risk_assessment'' \<or> operation = JStr ''performance_report''
           then ''transaction_analysis''
         else ''unknown'')"

subsection \<open>CoreRouter: the plan and its two loops\<close>

record IntentClassification =
  cls_intent :: string
  cls_confidence :: real
  cls_requiredAgents :: "string list"
  cls_parameters :: "string \<Rightarrow> jsval"
  cls_priority :: Priority
  cls_riskLevel :: Priority

record ExecutionPlan =
  plan_id :: string
  plan_userAddress :: string
  classification :: IntentClassification
  steps :: "AgentIntent list"
  estimatedGas :: real
  estimatedValue :: real
  riskAssessment :: string
  explanation :: string

text \<open>
  The body of the \<^verbatim>\<open>try\<close> block of \<^verbatim>\<open>executePlan\<close> up to the result of \<^verbatim>\<open>agent.execute\<close>:
  the capability is inferred, a miss throws, and otherwise the first match executes.
\<close>

definition executePlan_try ::
  "'w AgentRegistry \<Rightarrow> AgentIntent \<Rightarrow> 'w \<Rightarrow> (js_error + ExecutionResult) \<times> 'w" where
  "executePlan_try agentRegistry step w =
     (let capability = inferCapabilityFromStep step;
          agents = getByCapability agentRegistry capability
      in if length agents = 0
         then (Inl (Error (''No agent found for capability: '' @ capability)), w)
         else let agent = agents ! 0 in execute agent step w)"

text \<open>The result the \<^verbatim>\<open>catch\<close> block of \<^verbatim>\<open>executePlan\<close> pushes; \<open>now\<close> is \<^verbatim>\<open>Date.now()\<close>.\<close>

definition executePlan_caught :: "js_error \<Rightarrow> real \<Rightarrow> ExecutionResult" where
  "executePlan_caught error now =
     \<lparr>ex_success = False, ex_transactionHash = None, ex_gasUsed = None,
      ex_valueTransferred = None, ex_calls = [],
      ex_error = Some (error_message error),
      ex_timestamp = now, ex_explorerUrl = None\<rparr>"

text \<open>
  The \<^verbatim>\<open>for\<close> loop of \<^verbatim>\<open>executePlan\<close> over the remaining steps, with the results pushed
  so far. The Boolean of the result tells how the loop ended: \<open>True\<close> by a \<^verbatim>\<open>break\<close>,
  \<open>False\<close> by running out of steps. \<open>dateNow\<close> reads the clock of the world.
\<close>

fun executePlan_loop ::
  "('w \<Rightarrow> real) \<Rightarrow> 'w AgentRegistry \<Rightarrow> AgentIntent list \<Rightarrow> ExecutionResult list \<Rightarrow> 'w
   \<Rightarrow> ExecutionResult list \<times> bool \<times> 'w" where
  "executePlan_loop dateNow agentRegistry [] results w = (results, False, w)"
| "executePlan_loop dateNow agentRegistry (step # rest) results w =
     (case executePlan_try agentRegistry step w of
        (Inr result, w') \<Rightarrow>
          if \<not> ex_success result \<and> priority step \<noteq> Some PriorityLow
          then (results @ [result], True, w')
          else executePlan_loop dateNow agentRegistry rest (results @ [result]) w'
      | (Inl error, w') \<Rightarrow>
          (results @ [executePlan_caught error (dateNow w')], True, w'))"

definition executePlan ::
  "('w \<Rightarrow> real) \<Rightarrow> 'w AgentRegistry \<Rightarrow> ExecutionPlan \<Rightarrow> 'w \<Rightarrow> ExecutionResult list \<times> 'w" where
  "executePlan dateNow agentRegistry plan w =
     (case executePlan_loop dateNow agentRegistry (steps plan) [] w of
        (results, stopped, w') \<Rightarrow> (results, w'))"

text \<open>The result \<^verbatim>\<open>simulatePlan\<close> pushes for a step no agent serves.\<close>

definition simulatePlan_missing :: "string \<Rightarrow> SimulationResult" where
  "simulatePlan_missing capability =
     \<lparr>success = False, gasEstimate = 0, valueEstimate = 0, risk = HIGH, calls = [],
      justification = ''No agent found for capability: '' @ capability,
      warnings = [''Missing agent for '' @ capability],
      confidence = 0\<rparr>"

text \<open>
  The loop of \<^verbatim>\<open>simulatePlan\<close>. It has no \<^verbatim>\<open>try\<close>: what \<^verbatim>\<open>agent.simulate\<close> throws leaves
  the loop and the method.
\<close>

fun simulatePlan_loop ::
  "'w AgentRegistry \<Rightarrow> AgentIntent list \<Rightarrow> SimulationResult list \<Rightarrow> 'w
   \<Rightarrow> (js_error + SimulationResult list) \<times> 'w" where
  "simulatePlan_loop agentRegistry [] results w = (Inr results, w)"
| "simulatePlan_loop agentRegistry (step # rest) results w =
     (let capability = inferCapabilityFromStep step;
          agents = getByCapability agentRegistry capability
      in if length agents = 0
         then simulatePlan_loop agentRegistry rest (results @ [simulatePlan_missing capability]) w
         else (case simulate (agents ! 0) step w of
                 (Inl error, w') \<Rightarrow> (Inl error, w')
               | (Inr result, w') \<Rightarrow>
                   simulatePlan_loop agentRegistry rest (results @ [result]) w'))"

definition simulatePlan ::
  "'w AgentRegistry \<Rightarrow> ExecutionPlan \<Rightarrow> 'w \<Rightarrow> (js_error + SimulationResult list) \<times> 'w" where
  "simulatePlan agentRegistry plan w = simulatePlan_loop agentRegistry (steps plan) [] w"

subsection \<open>CoreRouter: per-user memory\<close>

record UserPreferences =
  maxSpendPerIntent :: real
  defaultSlippage :: real
  allowedProtocols :: "string list"
  allowedContracts :: "string list"
  defaultCurrency :: string
  riskTolerance :: Priority
  auto2FA :: bool
  auto2FAThreshold :: real

record UserMemory =
  address :: string
  preferences :: UserPreferences
  recentIntents :: "string list"
  frequentOperations :: "(string \<times> nat) list"
  lastUpdated :: real

text \<open>The field \<^verbatim>\<open>userMemory\<close>, a Map from user address to memory.\<close>

type_synonym userMemory = "(string \<times> UserMemory) list"

definition getUserPreferences :: "userMemory \<Rightarrow> string \<Rightarrow> UserPreferences" where
  "getUserPreferences um user =
     (case Map_get um user of
        Some memory \<Rightarrow> preferences memory
      | None \<Rightarrow>
          \<lparr>maxSpendPerIntent = 10000, defaultSlippage = 1, allowedProtocols = [],
           allowedContracts = [], defaultCurrency = ''STT'', riskTolerance = PriorityMedium,
           auto2FA = True, auto2FAThreshold = 1000\<rparr>)"

text \<open>\<^verbatim>\<open>xs.slice(-n)\<close>: the last \<open>n\<close> elements, all of them when there are fewer.\<close>

definition slice_last :: "nat \<Rightarrow> 'a list \<Rightarrow> 'a list" where
  "slice_last n xs = drop (length xs - n) xs"

text \<open>
  \<^verbatim>\<open>recordIntent\<close>; \<open>now\<close> is \<^verbatim>\<open>Date.now()\<close>. The source mutates the memory object the Map
  holds, which leaves the entry at its position: \<open>Map_set\<close> of the same key.
\<close>

definition recordIntent :: "real \<Rightarrow> string \<Rightarrow> string \<Rightarrow> userMemory \<Rightarrow> userMemory" where
  "recordIntent now user intent um =
     (case Map_get um user of
        None \<Rightarrow>
          Map_set user
            \<lparr>address = user, preferences = getUserPreferences um user,
             recentIntents = [intent], frequentOperations = [(intent, 1)],
             lastUpdated = now\<rparr> um
      | Some memory \<Rightarrow>
          (let pushed = recentIntents memory @ [intent];
               recent = (if length pushed > 50 then slice_last 50 pushed else pushed);
               count = (case Map_get (frequentOperations memory) intent of
                          None \<Rightarrow> 0 | Some n \<Rightarrow> n)
           in Map_set user
                (memory\<lparr>recentIntents := recent,
                        frequentOperations :=
                          Map_set intent (count + 1) (frequentOperations memory),
                        lastUpdated := now\<rparr>) um))"

definition clearUserMemory :: "string \<Rightarrow> userMemory \<Rightarrow> userMemory" where
  "clearUserMemory user um = Map_delete user um"

text \<open>A sequence of \<^verbatim>\<open>recordIntent\<close> calls, each with its clock reading, user and intent,
  run from a given memory.\<close>

definition record_all :: "(real \<times> string \<times> string) list \<Rightarrow> userMemory \<Rightarrow> userMemory" where
  "record_all calls_made um =
     foldl (\<lambda>m c. recordIntent (fst c) (fst (snd c)) (snd (snd c)) m) um calls_made"

text \<open>The intents a sequence of calls recorded for one user, oldest first.\<close>

definition intents_of :: "string \<Rightarrow> (real \<times> string \<times> string) list \<Rightarrow> string list" where
  "intents_of user calls_made =
     map (\<lambda>c. snd (snd c)) (filter (\<lambda>c. fst (snd c) = user) calls_made)"

text \<open>The stored history of a user: empty when the user has no memory entry.\<close>

definition history_of :: "userMemory \<Rightarrow> string \<Rightarrow> string list" where
  "history_of um user =
     (case Map_get um user of None \<Rightarrow> [] | Some memory \<Rightarrow> recentIntents memory)"

subsection \<open>The runtime and the libraries\<close>

text \<open>
  What the agents take from outside the repository. The conversions are total: an object
  whose conversion to a string or a number throws is outside the model.
  \<^item> \<open>rt_zodMessage\<close>: the text of a \<^verbatim>\<open>ZodError\<close> for a list of issues.
  \<^item> \<open>rt_toString\<close>, \<open>rt_toNumber\<close>: conversion of an array or object to a string, and of a
    value that is not a number to a number.
  \<^item> \<open>rt_numberToString\<close>, \<open>rt_toFixed\<close>, \<open>rt_toLocaleString\<close>: the printing of numbers.
  \<^item> \<open>rt_parseFloat\<close>: \<^verbatim>\<open>parseFloat\<close> where the model does not compute it itself.
  \<^item> \<open>rt_parseUnits\<close>, \<open>rt_encodeFunctionData\<close>: ethers' \<^verbatim>\<open>parseUnits\<close> and
    \<^verbatim>\<open>Interface.encodeFunctionData\<close>, which throw on arguments they cannot encode.
  \<^item> \<open>rt_dateNow\<close>, \<open>rt_random\<close>, \<open>rt_mockTxHash\<close>: \<^verbatim>\<open>Date.now()\<close>, \<^verbatim>\<open>Math.random()\<close> and
    the random hash of \<^verbatim>\<open>generateMockTxHash\<close>.
  \<^item> \<open>rt_explorerUrl\<close>: the environment variable \<^verbatim>\<open>SOMNIA_EXPLORER_URL\<close>.
  \<^item> \<open>rt_cached\<close>: the Research agent's cache, read at the serialised parameters: the
    payload of an entry younger than the time to live.
  \<^item> \<open>rt_query\<close>: a data helper of a read-only agent (\<^verbatim>\<open>getBalances\<close>, \<^verbatim>\<open>getNews\<close>,
    \<^verbatim>\<open>decodeTransaction\<close>, ...) run on its arguments, with \<^verbatim>\<open>JSON.stringify\<close> of what it
    returns, or what it throws.
\<close>

record Env =
  rt_zodMessage :: "ZodIssue list \<Rightarrow> string"
  rt_toString :: "jsval \<Rightarrow> string"
  rt_toNumber :: "jsval \<Rightarrow> real"
  rt_numberToString :: "real \<Rightarrow> string"
  rt_toFixed :: "real \<Rightarrow> nat \<Rightarrow> string"
  rt_toLocaleString :: "real \<Rightarrow> string"
  rt_parseFloat :: "jsval \<Rightarrow> real"
  rt_parseUnits :: "jsval \<Rightarrow> nat \<Rightarrow> js_error + int"
  rt_encodeFunctionData :: "string \<Rightarrow> jsval list \<Rightarrow> js_error + string"
  rt_dateNow :: real
  rt_random :: real
  rt_mockTxHash :: string
  rt_explorerUrl :: "string option"
  rt_cached :: "jsval list \<Rightarrow> string option"
  rt_query :: "string \<Rightarrow> jsval list \<Rightarrow> js_error + string"

text \<open>A value inside a template literal.\<close>

definition template :: "Env \<Rightarrow> jsval \<Rightarrow> string" where
  "template env v =
     (case v of
        JStr s \<Rightarrow> s
      | JNum r \<Rightarrow> rt_numberToString env r
      | JUndefined \<Rightarrow> ''undefined''
      | JNull \<Rightarrow> ''null''
      | JBool b \<Rightarrow> (if b then ''true'' else ''false'')
      | JArr xs \<Rightarrow> rt_toString env v
      | JObj kvs \<Rightarrow> rt_toString env v)"

text \<open>A value where a number is needed (\<^verbatim>\<open>x / 100\<close>, \<^verbatim>\<open>x > 3\<close>).\<close>

definition js_number :: "Env \<Rightarrow> jsval \<Rightarrow> real" where
  "js_number env v = (case v of JNum r \<Rightarrow> r | _ \<Rightarrow> rt_toNumber env v)"

text \<open>
  \<^verbatim>\<open>parseFloat\<close>. The model computes it on a number and on a string of decimal digits (all
  the validator table holds); every other argument is left to the runtime.
\<close>

definition digit_value :: "char \<Rightarrow> nat option" where
  "digit_value c = map_of (zip ''0123456789'' [0, 1, 2, 3, 4, 5, 6, 7, 8, 9]) c"

fun decimal_value :: "nat \<Rightarrow> string \<Rightarrow> nat option" where
  "decimal_value acc [] = Some acc"
| "decimal_value acc (c # cs) =
     (case digit_value c of None \<Rightarrow> None | Some d \<Rightarrow> decimal_value (10 * acc + d) cs)"

definition parseFloat :: "Env \<Rightarrow> jsval \<Rightarrow> real" where
  "parseFloat env v =
     (case v of
        JNum r \<Rightarrow> r
      | JStr s \<Rightarrow> (if s = [] then rt_parseFloat env v
                   else case decimal_value 0 s of
                          Some n \<Rightarrow> real n
                        | None \<Rightarrow> rt_parseFloat env v)
      | _ \<Rightarrow> rt_parseFloat env v)"

text \<open>
  Method calls on a value of unknown type. A string and an array have \<^verbatim>\<open>slice\<close>, an array
  has \<^verbatim>\<open>join\<close>, a string has \<^verbatim>\<open>toLowerCase\<close>; on any other value the property is not a
  function and the call throws a \<^verbatim>\<open>TypeError\<close>. With \<^verbatim>\<open>?.\<close> a null or undefined receiver
  gives undefined instead.
\<close>

definition js_slice :: "string \<Rightarrow> nat \<Rightarrow> jsval \<Rightarrow> js_error + jsval" where
  "js_slice what n v =
     (case v of
        JStr s \<Rightarrow> Inr (JStr (take n s))
      | JArr xs \<Rightarrow> Inr (JArr (take n xs))
      | _ \<Rightarrow> Inl (TypeError (what @ ''.slice is not a function'')))"


fun join_strings :: "string \<Rightarrow> string list \<Rightarrow> string" where
  "join_strings sep [] = []"
| "join_strings sep [s] = s"
| "join_strings sep (s # t # ss) = s @ sep @ join_strings sep (t # ss)"

definition js_opt_join :: "Env \<Rightarrow> string \<Rightarrow> string \<Rightarrow> jsval \<Rightarrow> js_error + jsval" where
  "js_opt_join env what sep v =
     (case v of
        JUndefined \<Rightarrow> Inr JUndefined
      | JNull \<Rightarrow> Inr JUndefined
      | JArr xs \<Rightarrow>
          Inr (JStr (join_strings sep
                 (map (\<lambda>x. if x = JUndefined \<or> x = JNull then [] else template env x) xs)))
      | _ \<Rightarrow> Inl (TypeError (what @ ''?.join is not a function'')))"

text \<open>\<^verbatim>\<open>v?.[0]\<close>\<close>

definition js_opt_first :: "jsval \<Rightarrow> jsval" where
  "js_opt_first v =
     (case v of
        JArr xs \<Rightarrow> (case xs of [] \<Rightarrow> JUndefined | x # rest \<Rightarrow> x)
      | JStr s \<Rightarrow> (case s of [] \<Rightarrow> JUndefined | c # rest \<Rightarrow> JStr [c])
      | JObj kvs \<Rightarrow> (case Map_get kvs ''0'' of None \<Rightarrow> JUndefined | Some x \<Rightarrow> x)
      | _ \<Rightarrow> JUndefined)"

definition js_toLowerCase :: "string \<Rightarrow> jsval \<Rightarrow> js_error + string" where
  "js_toLowerCase what v =
     (case v of
        JStr s \<Rightarrow> Inr (toLowerCase s)
      | _ \<Rightarrow> Inl (TypeError (what @ ''.toLowerCase is not a function'')))"

text \<open>\<^verbatim>\<open>Math.floor\<close>\<close>

definition Math_floor :: "real \<Rightarrow> real" where
  "Math_floor x = of_int \<lfloor>x\<rfloor>"

text \<open>\<^verbatim>\<open>BaseAgent.generateExplorerUrl\<close>\<close>

definition generateExplorerUrl :: "Env \<Rightarrow> string \<Rightarrow> string" where
  "generateExplorerUrl env txHash =
     (let explorerUrl = (case rt_explorerUrl env of
                           None \<Rightarrow> ''https://explorer.testnet.somnia.network''
                         | Some u \<Rightarrow> if u = [] then ''https://explorer.testnet.somnia.network''
                                     else u)
      in explorerUrl @ ''/tx/'' @ txHash)"

text \<open>
  The shape every \<^verbatim>\<open>simulate\<close> and \<^verbatim>\<open>execute\<close> shares: \<^verbatim>\<open>validateIntent\<close> runs first, outside
  the \<^verbatim>\<open>try\<close>, so what it throws leaves the method; what the \<^verbatim>\<open>try\<close> block throws goes to
  the \<^verbatim>\<open>catch\<close> block, whose value the method returns.
\<close>

definition validate_then_try ::
  "Env \<Rightarrow> AgentIntent \<Rightarrow> (js_error + 'a) \<Rightarrow> (js_error \<Rightarrow> 'a) \<Rightarrow> js_error + 'a" where
  "validate_then_try env intent try_block catch_block =
     (case validateIntent (rt_zodMessage env) intent of
        Inl thrown \<Rightarrow> Inl thrown
      | Inr u \<Rightarrow> (case try_block of
                    Inl caught \<Rightarrow> Inr (catch_block caught)
                  | Inr returned \<Rightarrow> Inr returned))"

text \<open>The \<^verbatim>\<open>catch\<close> block all five \<^verbatim>\<open>execute\<close> methods share.\<close>

definition execute_caught :: "Env \<Rightarrow> js_error \<Rightarrow> ExecutionResult" where
  "execute_caught env error =
     \<lparr>ex_success = False, ex_transactionHash = None, ex_gasUsed = None,
      ex_valueTransferred = None, ex_calls = [],
      ex_error = Some (error_message error),
      ex_timestamp = rt_dateNow env, ex_explorerUrl = None\<rparr>"

subsection \<open>StakeAgent\<close>

record StakeParameters =
  sp_amount :: jsval
  sp_validatorId :: jsval
  sp_validatorAddress :: jsval
  sp_operation :: jsval
  sp_positionId :: jsval

record ValidatorInfo =
  v_id :: string
  v_name :: string
  v_address :: string
  v_commission :: real
  v_apr :: real
  v_uptime :: real
  v_totalStaked :: string
  v_maxCapacity :: string
  v_active :: bool

text \<open>The field \<^verbatim>\<open>validators\<close>, a Map from validator id to validator.\<close>

type_synonym validator_table = "(string \<times> ValidatorInfo) list"

text \<open>\<^verbatim>\<open>initializeValidators\<close>: the table the constructor builds, by three \<^verbatim>\<open>set\<close> calls.\<close>

definition initializeValidators :: validator_table where
  "initializeValidators =
     Map_set ''validator_3''
       \<lparr>v_id = ''validator_3'', v_name = ''Somnia Validator Gamma'',
        v_address = ''0x3333333333333333333333333333333333333333'',
        v_commission = 7, v_apr = 10, v_uptime = 98.0,
        v_totalStaked = ''750000'', v_maxCapacity = ''2000000'', v_active = True\<rparr>
    (Map_set ''validator_2''
       \<lparr>v_id = ''validator_2'', v_name = ''Somnia Validator Beta'',
        v_address = ''0x2222222222222222222222222222222222222222'',
        v_commission = 3, v_apr = 14, v_uptime = 99.0,
        v_totalStaked = ''300000'', v_maxCapacity = ''500000'', v_active = True\<rparr>
    (Map_set ''validator_1''
       \<lparr>v_id = ''validator_1'', v_name = ''Somnia Validator Alpha'',
        v_address = ''0x1111111111111111111111111111111111111111'',
        v_commission = 5, v_apr = 12, v_uptime = 99.5,
        v_totalStaked = ''500000'', v_maxCapacity = ''1000000'', v_active = True\<rparr>
     []))"

definition parseStakeParameters :: "AgentIntent \<Rightarrow> js_error + StakeParameters" where
  "parseStakeParameters intent =
     (let params = parameters intent
      in if \<not> truthy (params ''operation'')
         then Inl (Error ''Missing required parameter: operation'')
         else let operation = params ''operation''
              in if operation = JStr ''stake'' \<and> \<not> truthy (params ''amount'')
                 then Inl (Error ''Amount required for staking operation'')
                 else Inr \<lparr>sp_amount = js_or (params ''amount'') (JStr ''0''),
                           sp_validatorId = params ''validatorId'',
                           sp_validatorAddress = params ''validatorAddress'',
                           sp_operation = operation,
                           sp_positionId = params ''positionId''\<rparr>)"

text \<open>
  \<^verbatim>\<open>Array.prototype.sort\<close> with a comparator: stable, \<open>a\<close> before \<open>b\<close> when the comparator
  is negative on them. An insertion sort from the right end.
\<close>

fun insert_by :: "('a \<Rightarrow> 'a \<Rightarrow> real) \<Rightarrow> 'a \<Rightarrow> 'a list \<Rightarrow> 'a list" where
  "insert_by cmp x [] = [x]"
| "insert_by cmp x (y # ys) = (if cmp x y \<le> 0 then x # y # ys else y # insert_by cmp x ys)"

definition js_sort :: "('a \<Rightarrow> 'a \<Rightarrow> real) \<Rightarrow> 'a list \<Rightarrow> 'a list" where
  "js_sort cmp xs = foldr (insert_by cmp) xs []"

text \<open>The score of the comparator in \<^verbatim>\<open>selectBestValidator\<close>.\<close>

definition validator_score :: "ValidatorInfo \<Rightarrow> real" where
  "validator_score v = v_apr v * (1 - v_commission v / 100) * (v_uptime v / 100)"

text \<open>The filter of \<^verbatim>\<open>selectBestValidator\<close>: active, and room for the amount.\<close>

definition has_capacity :: "Env \<Rightarrow> real \<Rightarrow> ValidatorInfo \<Rightarrow> bool" where
  "has_capacity env amount v =
     (v_active v \<and>
      parseFloat env (JStr (v_totalStaked v)) + amount \<le> parseFloat env (JStr (v_maxCapacity v)))"

definition selectBestValidator :: "Env \<Rightarrow> validator_table \<Rightarrow> real \<Rightarrow> js_error + string" where
  "selectBestValidator env validators amount =
     (let activeValidators =
            js_sort (\<lambda>a b. (let scoreA = validator_score a; scoreB = validator_score b
                             in scoreB - scoreA))
              (filter (has_capacity env amount) (Map_values validators))
      in if length activeValidators = 0
         then Inl (Error ''No suitable validators available'')
         else Inr (v_id (activeValidators ! 0)))"

text \<open>\<^verbatim>\<open>this.validators.get(x)\<close> at a value of unknown type: the keys are strings.\<close>

definition validators_get :: "validator_table \<Rightarrow> jsval \<Rightarrow> ValidatorInfo option" where
  "validators_get validators x = (case x of JStr s \<Rightarrow> Map_get validators s | _ \<Rightarrow> None)"

definition getValidatorName :: "validator_table \<Rightarrow> jsval \<Rightarrow> string" where
  "getValidatorName validators validatorId =
     (case validators_get validators validatorId of
        None \<Rightarrow> ''Unknown Validator''
      | Some v \<Rightarrow> if v_name v = [] then ''Unknown Validator'' else v_name v)"

definition estimateGas :: "jsval \<Rightarrow> real" where
  "estimateGas operation =
     (if operation = JStr ''stake'' then 250000
      else if operation = JStr ''unstake'' then 180000
      else if operation = JStr ''claim_rewards'' then 150000
      else 200000)"

text \<open>\<^verbatim>\<open>params.validatorId || this.selectBestValidator(parseFloat(params.amount))\<close>\<close>

definition chosen_validator :: "Env \<Rightarrow> validator_table \<Rightarrow> StakeParameters \<Rightarrow> js_error + jsval" where
  "chosen_validator env validators p =
     (if truthy (sp_validatorId p) then Inr (sp_validatorId p)
      else and_then (selectBestValidator env validators (parseFloat env (sp_amount p)))
             (\<lambda>best. Inr (JStr best)))"

text \<open>\<^verbatim>\<open>buildStakeCalls\<close>: the \<^verbatim>\<open>switch\<close> yields the call data and the description, or throws.\<close>

definition buildStakeCalls ::
  "Env \<Rightarrow> validator_table \<Rightarrow> string \<Rightarrow> StakeParameters \<Rightarrow> string \<Rightarrow> js_error + CallData list" where
  "buildStakeCalls env validators stakingAdapterAddress p user =
     and_then
       (if sp_operation p = JStr ''stake'' then
          and_then (chosen_validator env validators p) (\<lambda>validatorId.
          and_then (rt_parseUnits env (sp_amount p) 18) (\<lambda>amount.
          and_then (rt_encodeFunctionData env ''stake''
                      [validatorId, JNum (of_int amount), JStr user]) (\<lambda>callData.
          Inr (callData,
               ''Stake '' @ template env (sp_amount p) @ '' STT with validator '' @
               getValidatorName validators validatorId))))
        else if sp_operation p = JStr ''unstake'' then
          if \<not> truthy (sp_positionId p) then Inl (Error ''Position ID required for unstaking'')
          else
            and_then (rt_parseUnits env (sp_amount p) 18) (\<lambda>unstakeAmount.
            and_then (rt_encodeFunctionData env ''requestUnstake''
                        [sp_positionId p, JNum (of_int unstakeAmount)]) (\<lambda>callData.
            and_then (js_slice ''params.positionId'' 8 (sp_positionId p)) (\<lambda>short.
            Inr (callData,
                 ''Unstake '' @ template env (sp_amount p) @ '' STT from position '' @
                 template env short @ ''...''))))
        else if sp_operation p = JStr ''claim_rewards'' then
          if \<not> truthy (sp_positionId p)
          then Inl (Error ''Position ID required for claiming rewards'')
          else
            and_then (rt_encodeFunctionData env ''claimRewards'' [sp_positionId p]) (\<lambda>callData.
            and_then (js_slice ''params.positionId'' 8 (sp_positionId p)) (\<lambda>short.
            Inr (callData, ''Claim rewards from position '' @ template env short @ ''...'')))
        else Inl (Error (''Unsupported operation: '' @ template env (sp_operation p))))
       (\<lambda>built.
          Inr [\<lparr>cd_target = stakingAdapterAddress, cd_data = fst built, cd_value = 0,
                cd_description = snd built,
                cd_gasLimit = Some (estimateGas (sp_operation p))\<rparr>])"

definition calculateStakeRisk :: "Env \<Rightarrow> validator_table \<Rightarrow> StakeParameters \<Rightarrow> RiskLevel" where
  "calculateStakeRisk env validators p =
     (let valueAtRisk = parseFloat env (js_or (sp_amount p) (JStr ''0''));
          complexity1 = (if sp_operation p = JStr ''unstake'' then 2 else 1);
          complexity =
            (if sp_operation p = JStr ''stake'' \<and> truthy (sp_validatorId p)
             then (case validators_get validators (sp_validatorId p) of
                     None \<Rightarrow> complexity1
                   | Some validator \<Rightarrow>
                       if v_uptime validator < 95 then complexity1 + 1 else complexity1)
             else complexity1)
      in calculateRisk valueAtRisk complexity None)"

definition generateStakeJustification ::
  "Env \<Rightarrow> validator_table \<Rightarrow> StakeParameters \<Rightarrow> js_error + string" where
  "generateStakeJustification env validators p =
     (if sp_operation p = JStr ''stake'' then
        and_then (chosen_validator env validators p) (\<lambda>validatorId.
          case validators_get validators validatorId of
            Some validator \<Rightarrow>
              Inr (''Staking '' @ template env (sp_amount p) @ '' STT with '' @ v_name validator @
                   '' (APR: '' @ rt_numberToString env (v_apr validator) @
                   ''%, Commission: '' @ rt_numberToString env (v_commission validator) @
                   ''%, Uptime: '' @ rt_numberToString env (v_uptime validator) @ ''%). '' @
                   ''This validator offers competitive rewards with good performance history.'')
          | None \<Rightarrow>
              Inr (''Staking '' @ template env (sp_amount p) @ '' STT with selected validator.''))
      else if sp_operation p = JStr ''unstake'' then
        Inr (''Requesting unstake of '' @ template env (sp_amount p) @
             '' STT. Tokens will be available after the 21-day unbonding period. '' @
             ''Consider the opportunity cost of missing rewards during this period.'')
      else if sp_operation p = JStr ''claim_rewards'' then
        Inr (''Claiming accumulated staking rewards. This will reset the reward '' @
             ''calculation period and transfer earned STT to your wallet.'')
      else Inr (''Executing '' @ template env (sp_operation p) @ '' operation.''))"

definition StakeAgent_calculateConfidence ::
  "validator_table \<Rightarrow> StakeParameters \<Rightarrow> RiskLevel \<Rightarrow> real" where
  "StakeAgent_calculateConfidence validators p risk' =
     (let confidence0 = 0.9;
          confidence1 =
            (if sp_operation p = JStr ''stake'' \<and> truthy (sp_validatorId p)
             then (case validators_get validators (sp_validatorId p) of
                     None \<Rightarrow> confidence0
                   | Some validator \<Rightarrow>
                       (let c1 = (if v_uptime validator < 95 then confidence0 - 0.2
                                  else confidence0)
                        in if v_commission validator > 10 then c1 - 0.1 else c1))
             else confidence0);
          confidence2 =
            (case risk' of
               HIGH \<Rightarrow> confidence1 - 0.2
             | CRITICAL \<Rightarrow> confidence1 - 0.4
             | MEDIUM \<Rightarrow> confidence1 - 0.1
             | LOW \<Rightarrow> confidence1)
      in max 0.1 confidence2)"

text \<open>The \<^verbatim>\<open>try\<close> block of \<^verbatim>\<open>StakeAgent.simulate\<close>.\<close>

definition StakeAgent_simulate_try ::
  "Env \<Rightarrow> validator_table \<Rightarrow> string \<Rightarrow> AgentIntent \<Rightarrow> js_error + SimulationResult" where
  "StakeAgent_simulate_try env validators stakingAdapterAddress intent =
     and_then (parseStakeParameters intent) (\<lambda>p.
     and_then (buildStakeCalls env validators stakingAdapterAddress p (userAddress intent))
       (\<lambda>calls'.
     let risk' = calculateStakeRisk env validators p
     in and_then (generateStakeJustification env validators p) (\<lambda>justification'.
     let warnings' =
           (if sp_operation p = JStr ''stake''
            then (let amount = parseFloat env (sp_amount p)
                  in (if amount < 1 then [''Amount below minimum staking threshold''] else []) @
                     (if amount > 1000
                      then [''Large staking amount - consider validator limits''] else []))
            else []);
         gasEstimate' = estimateGas (sp_operation p);
         confidence' = StakeAgent_calculateConfidence validators p risk'
     in Inr \<lparr>success = True, gasEstimate = gasEstimate',
             valueEstimate = parseFloat env (js_or (sp_amount p) (JStr ''0'')),
             risk = risk', calls = calls', justification = justification',
             warnings = warnings', confidence = confidence'\<rparr>)))"

text \<open>The \<^verbatim>\<open>catch\<close> block of \<^verbatim>\<open>StakeAgent.simulate\<close>.\<close>

definition StakeAgent_simulate_catch :: "Env \<Rightarrow> AgentIntent \<Rightarrow> js_error \<Rightarrow> SimulationResult" where
  "StakeAgent_simulate_catch env intent error =
     \<lparr>success = False, gasEstimate = 0, valueEstimate = 0, risk = HIGH, calls = [],
      justification =
        ''Failed to simulate '' @
        template env (js_or (parameters intent ''operation'') (JStr ''staking operation'')) @
        '': '' @ error_message error,
      warnings = [''Simulation failed - transaction may fail''],
      confidence = 0\<rparr>"

definition StakeAgent_simulate ::
  "Env \<Rightarrow> validator_table \<Rightarrow> string \<Rightarrow> AgentIntent \<Rightarrow> js_error + SimulationResult" where
  "StakeAgent_simulate env validators stakingAdapterAddress intent =
     validate_then_try env intent
       (StakeAgent_simulate_try env validators stakingAdapterAddress intent)
       (StakeAgent_simulate_catch env intent)"

text \<open>The \<^verbatim>\<open>try\<close> block of \<^verbatim>\<open>StakeAgent.execute\<close>.\<close>

definition StakeAgent_execute_try ::
  "Env \<Rightarrow> validator_table \<Rightarrow> string \<Rightarrow> AgentIntent \<Rightarrow> js_error + ExecutionResult" where
  "StakeAgent_execute_try env validators stakingAdapterAddress intent =
     and_then (parseStakeParameters intent) (\<lambda>p.
     and_then (buildStakeCalls env validators stakingAdapterAddress p (userAddress intent))
       (\<lambda>calls'.
     let txHash = rt_mockTxHash env;
         gasUsed = estimateGas (sp_operation p) * 0.9
     in Inr \<lparr>ex_success = True, ex_transactionHash = Some txHash, ex_gasUsed = Some gasUsed,
             ex_valueTransferred = Some (parseFloat env (js_or (sp_amount p) (JStr ''0''))),
             ex_calls = map (\<lambda>call. \<lparr>cr_success = True,
                                      cr_gasUsed = Math_floor (gasUsed / real (length calls')),
                                      cr_returnData = Some ''0x'', cr_error = None\<rparr>) calls',
             ex_error = None, ex_timestamp = rt_dateNow env,
             ex_explorerUrl = Some (generateExplorerUrl env txHash)\<rparr>))"

definition StakeAgent_execute ::
  "Env \<Rightarrow> validator_table \<Rightarrow> string \<Rightarrow> AgentIntent \<Rightarrow> js_error + ExecutionResult" where
  "StakeAgent_execute env validators stakingAdapterAddress intent =
     validate_then_try env intent
       (StakeAgent_execute_try env validators stakingAdapterAddress intent)
       (execute_caught env)"

text \<open>
  The agent the constructor builds, as the registry holds it. Here and for the other four
  agents the methods read clock, random source and caches from \<open>env\<close> and hand the world
  back as they got it.
\<close>

definition StakeAgent :: "Env \<Rightarrow> string \<Rightarrow> 'w Agent" where
  "StakeAgent env stakingAdapterAddress =
     \<lparr>agent_id = ''stake-agent'', agent_name = ''Stake Agent'',
      capabilities = [''stake'', ''unstake'', ''validator_analysis'', ''rewards_optimization'',
                      ''risk_assessment''],
      simulate = (\<lambda>intent w.
         (StakeAgent_simulate env initializeValidators stakingAdapterAddress intent, w)),
      execute = (\<lambda>intent w.
         (StakeAgent_execute env initializeValidators stakingAdapterAddress intent, w))\<rparr>"

subsection \<open>TradeAgent\<close>

record SwapParameters =
  sw_tokenIn :: jsval
  sw_tokenOut :: jsval
  sw_amountIn :: jsval
  sw_amountOutMin :: jsval
  sw_slippage :: jsval
  sw_deadline :: real
  sw_preferredDex :: jsval

record TokenInfo =
  tk_address :: string
  tk_symbol :: string
  tk_decimals :: real
  tk_priceUSD :: real

record SwapQuote =
  q_amountOut :: real
  q_priceImpact :: real
  q_gasEstimate :: real
  q_route :: "jsval list"
  q_dexUsed :: string

text \<open>The field \<^verbatim>\<open>supportedTokens\<close>, a Map from lower-case address to token.\<close>

type_synonym token_table = "(string \<times> TokenInfo) list"

definition initializeSupportedTokens :: token_table where
  "initializeSupportedTokens =
     Map_set ''0x3000000000000000000000000000000000000000''
       \<lparr>tk_address = ''0x3000000000000000000000000000000000000000'', tk_symbol = ''WBTC'',
        tk_decimals = 8, tk_priceUSD = 45000\<rparr>
    (Map_set ''0x2000000000000000000000000000000000000000''
       \<lparr>tk_address = ''0x2000000000000000000000000000000000000000'', tk_symbol = ''USDC'',
        tk_decimals = 6, tk_priceUSD = 1\<rparr>
    (Map_set ''0x1000000000000000000000000000000000000000''
       \<lparr>tk_address = ''0x1000000000000000000000000000000000000000'', tk_symbol = ''STT'',
        tk_decimals = 18, tk_priceUSD = 1\<rparr>
    (Map_set ''0x0000000000000000000000000000000000000000''
       \<lparr>tk_address = ''0x0000000000000000000000000000000000000000'', tk_symbol = ''ETH'',
        tk_decimals = 18, tk_priceUSD = 2000\<rparr>
     [])))"

text \<open>\<^verbatim>\<open>intent.deadline || Math.floor(Date.now() / 1000) + 1200\<close>\<close>

definition deadline_or_default :: "Env \<Rightarrow> real \<Rightarrow> real" where
  "deadline_or_default env d = (if d \<noteq> 0 then d else Math_floor (rt_dateNow env / 1000) + 1200)"

definition parseSwapParameters :: "Env \<Rightarrow> AgentIntent \<Rightarrow> js_error + SwapParameters" where
  "parseSwapParameters env intent =
     (let params = parameters intent
      in if \<not> truthy (params ''tokenIn'') \<or> \<not> truthy (params ''tokenOut'') \<or>
            \<not> truthy (params ''amountIn'')
         then Inl (Error ''Missing required swap parameters: tokenIn, tokenOut, amountIn'')
         else
           (let slippage' =
                  js_or (js_or (case slippage intent of None \<Rightarrow> JUndefined | Some s \<Rightarrow> JNum s)
                               (params ''slippage''))
                        (JNum 1);
                deadline' = deadline_or_default env (deadline intent)
            in Inr \<lparr>sw_tokenIn = params ''tokenIn'', sw_tokenOut = params ''tokenOut'',
                     sw_amountIn = params ''amountIn'',
                     sw_amountOutMin = params ''amountOutMin'',
                     sw_slippage = slippage', sw_deadline = deadline',
                     sw_preferredDex = params ''preferredDex''\<rparr>))"

text \<open>\<^verbatim>\<open>this.supportedTokens.get(x.toLowerCase())\<close> at a value of unknown type.\<close>

definition supportedTokens_get ::
  "token_table \<Rightarrow> string \<Rightarrow> jsval \<Rightarrow> js_error + TokenInfo option" where
  "supportedTokens_get supportedTokens what x =
     and_then (js_toLowerCase what x) (\<lambda>key. Inr (Map_get supportedTokens key))"

definition getSwapQuote :: "Env \<Rightarrow> token_table \<Rightarrow> SwapParameters \<Rightarrow> js_error + SwapQuote" where
  "getSwapQuote env supportedTokens p =
     and_then (supportedTokens_get supportedTokens ''params.tokenIn'' (sw_tokenIn p))
       (\<lambda>tokenInInfo.
     and_then (supportedTokens_get supportedTokens ''params.tokenOut'' (sw_tokenOut p))
       (\<lambda>tokenOutInfo.
     case (tokenInInfo, tokenOutInfo) of
       (Some tin, Some tout) \<Rightarrow>
         (let amountIn = parseFloat env (sw_amountIn p);
              exchangeRate = tk_priceUSD tin / tk_priceUSD tout;
              amountOut = amountIn * exchangeRate;
              amountOutAfterFee = amountOut * 0.997;
              priceImpact = min ((amountIn / 100000) * 2) 15
          in Inr \<lparr>q_amountOut = amountOutAfterFee, q_priceImpact = priceImpact,
                   q_gasEstimate = 180000, q_route = [sw_tokenIn p, sw_tokenOut p],
                   q_dexUsed = ''Demo AMM''\<rparr>)
     | _ \<Rightarrow> Inl (Error ''Unsupported token pair'')))"

text \<open>
  \<^verbatim>\<open>getTokenSymbol\<close>:
  \<^verbatim>\<open>this.supportedTokens.get(address.toLowerCase())?.symbol || address.slice(0, 6) + '...'\<close>
\<close>

definition getTokenSymbol :: "Env \<Rightarrow> token_table \<Rightarrow> jsval \<Rightarrow> js_error + string" where
  "getTokenSymbol env supportedTokens a =
     and_then (supportedTokens_get supportedTokens ''address'' a) (\<lambda>found.
       case found of
         Some t \<Rightarrow>
           if tk_symbol t \<noteq> [] then Inr (tk_symbol t)
           else and_then (js_slice ''address'' 6 a) (\<lambda>short. Inr (template env short @ ''...''))
       | None \<Rightarrow> and_then (js_slice ''address'' 6 a) (\<lambda>short. Inr (template env short @ ''...'')))"

text \<open>\<^verbatim>\<open>ethers.ZeroHash\<close>\<close>

definition ZeroHash :: string where
  "ZeroHash = ''0x0000000000000000000000000000000000000000000000000000000000000000''"

definition buildSwapCalls ::
  "Env \<Rightarrow> token_table \<Rightarrow> string \<Rightarrow> SwapParameters \<Rightarrow> string \<Rightarrow> js_error + CallData list" where
  "buildSwapCalls env supportedTokens swapAdapterAddress p user =
     and_then (getSwapQuote env supportedTokens p) (\<lambda>quote.
     let amountOutMin =
           js_or (sw_amountOutMin p)
             (JStr (rt_numberToString env
                (q_amountOut quote *
                 (1 - js_number env (js_or (sw_slippage p) (JNum 1)) / 100))))
     in and_then (rt_parseUnits env (sw_amountIn p) 18) (\<lambda>amountInUnits.
        and_then (rt_parseUnits env amountOutMin 18) (\<lambda>amountOutMinUnits.
        let swapParams =
              JObj [(''tokenIn'', sw_tokenIn p), (''tokenOut'', sw_tokenOut p),
                    (''amountIn'', JNum (of_int amountInUnits)),
                    (''amountOutMin'', JNum (of_int amountOutMinUnits)),
                    (''recipient'', JStr user),
                    (''deadline'', JNum (deadline_or_default env (sw_deadline p))),
                    (''routeData'', JStr ''0x'')];
            preferredDex = js_or (sw_preferredDex p) (JStr ZeroHash)
        in and_then (rt_encodeFunctionData env ''executeSwap'' [swapParams, preferredDex])
             (\<lambda>callData.
           and_then (getTokenSymbol env supportedTokens (sw_tokenIn p)) (\<lambda>symbolIn.
           and_then (getTokenSymbol env supportedTokens (sw_tokenOut p)) (\<lambda>symbolOut.
           Inr [\<lparr>cd_target = swapAdapterAddress, cd_data = callData, cd_value = 0,
                 cd_description =
                   ''Swap '' @ template env (sw_amountIn p) @ '' '' @ symbolIn @ '' for '' @
                   symbolOut,
                 cd_gasLimit = Some 200000\<rparr>]))))))"

definition calculateSwapRisk ::
  "Env \<Rightarrow> token_table \<Rightarrow> SwapParameters \<Rightarrow> SwapQuote \<Rightarrow> js_error + RiskLevel" where
  "calculateSwapRisk env supportedTokens p quote =
     and_then (supportedTokens_get supportedTokens ''params.tokenIn'' (sw_tokenIn p))
       (\<lambda>found.
     let price = (case found of
                    None \<Rightarrow> 1
                  | Some t \<Rightarrow> if tk_priceUSD t \<noteq> 0 then tk_priceUSD t else 1);
         valueAtRisk = parseFloat env (sw_amountIn p) * price;
         complexity = 1;
         priceImpact = q_priceImpact quote / 100
     in Inr (calculateRisk valueAtRisk complexity (Some priceImpact)))"

definition generateSwapJustification ::
  "Env \<Rightarrow> token_table \<Rightarrow> SwapParameters \<Rightarrow> SwapQuote \<Rightarrow> js_error + string" where
  "generateSwapJustification env supportedTokens p quote =
     and_then (getTokenSymbol env supportedTokens (sw_tokenIn p)) (\<lambda>tokenInSymbol.
     and_then (getTokenSymbol env supportedTokens (sw_tokenOut p)) (\<lambda>tokenOutSymbol.
     Inr (''Executing swap of '' @ template env (sw_amountIn p) @ '' '' @ tokenInSymbol @
          '' for approximately '' @ rt_toFixed env (q_amountOut quote) 4 @ '' '' @
          tokenOutSymbol @ '' via '' @ q_dexUsed quote @ ''. '' @
          ''Price impact: '' @ rt_toFixed env (q_priceImpact quote) 2 @
          ''%. Gas estimate: '' @ rt_toLocaleString env (q_gasEstimate quote) @ '' gas.'')))"

definition TradeAgent_calculateConfidence :: "SwapQuote \<Rightarrow> RiskLevel \<Rightarrow> real" where
  "TradeAgent_calculateConfidence quote risk' =
     (let confidence0 = 0.9;
          confidence1 = confidence0 - min (q_priceImpact quote / 100 * 2) 0.4;
          confidence2 =
            (case risk' of
               HIGH \<Rightarrow> confidence1 - 0.2
             | CRITICAL \<Rightarrow> confidence1 - 0.4
             | MEDIUM \<Rightarrow> confidence1 - 0.1
             | LOW \<Rightarrow> confidence1)
      in max 0.1 confidence2)"

text \<open>The \<^verbatim>\<open>try\<close> block of \<^verbatim>\<open>TradeAgent.simulate\<close>.\<close>

definition TradeAgent_simulate_try ::
  "Env \<Rightarrow> token_table \<Rightarrow> string \<Rightarrow> AgentIntent \<Rightarrow> js_error + SimulationResult" where
  "TradeAgent_simulate_try env supportedTokens swapAdapterAddress intent =
     and_then (parseSwapParameters env intent) (\<lambda>p.
     and_then (getSwapQuote env supportedTokens p) (\<lambda>quote.
     and_then (buildSwapCalls env supportedTokens swapAdapterAddress p (userAddress intent))
       (\<lambda>calls'.
     and_then (calculateSwapRisk env supportedTokens p quote) (\<lambda>risk'.
     let warnings' =
           (if q_priceImpact quote > 5
            then [''High price impact: '' @ rt_toFixed env (q_priceImpact quote) 2 @ ''%'']
            else []) @
           (if truthy (sw_slippage p) \<and> js_number env (sw_slippage p) > 3
            then [''High slippage tolerance: '' @ template env (sw_slippage p) @ ''%'']
            else [])
     in and_then (generateSwapJustification env supportedTokens p quote) (\<lambda>justification'.
        Inr \<lparr>success = True, gasEstimate = q_gasEstimate quote,
              valueEstimate = parseFloat env (sw_amountIn p),
              risk = risk', calls = calls', justification = justification',
              warnings = warnings',
              confidence = TradeAgent_calculateConfidence quote risk'\<rparr>)))))"

text \<open>The \<^verbatim>\<open>catch\<close> block of \<^verbatim>\<open>TradeAgent.simulate\<close>.\<close>

definition TradeAgent_simulate_catch :: "js_error \<Rightarrow> SimulationResult" where
  "TradeAgent_simulate_catch error =
     \<lparr>success = False, gasEstimate = 0, valueEstimate = 0, risk = HIGH, calls = [],
      justification = ''Failed to simulate swap: '' @ error_message error,
      warnings = [''Simulation failed - transaction may fail''],
      confidence = 0\<rparr>"

definition TradeAgent_simulate ::
  "Env \<Rightarrow> token_table \<Rightarrow> string \<Rightarrow> AgentIntent \<Rightarrow> js_error + SimulationResult" where
  "TradeAgent_simulate env supportedTokens swapAdapterAddress intent =
     validate_then_try env intent
       (TradeAgent_simulate_try env supportedTokens swapAdapterAddress intent)
       TradeAgent_simulate_catch"

text \<open>The \<^verbatim>\<open>try\<close> block of \<^verbatim>\<open>TradeAgent.execute\<close>.\<close>

definition TradeAgent_execute_try ::
  "Env \<Rightarrow> token_table \<Rightarrow> string \<Rightarrow> AgentIntent \<Rightarrow> js_error + ExecutionResult" where
  "TradeAgent_execute_try env supportedTokens swapAdapterAddress intent =
     and_then (parseSwapParameters env intent) (\<lambda>p.
     and_then (buildSwapCalls env supportedTokens swapAdapterAddress p (userAddress intent))
       (\<lambda>calls'.
     let txHash = rt_mockTxHash env;
         gasUsed = 150000 + Math_floor (rt_random env * 50000)
     in Inr \<lparr>ex_success = True, ex_transactionHash = Some txHash, ex_gasUsed = Some gasUsed,
             ex_valueTransferred = Some (parseFloat env (sw_amountIn p)),
             ex_calls = map (\<lambda>call. \<lparr>cr_success = True,
                                      cr_gasUsed = Math_floor (gasUsed / real (length calls')),
                                      cr_returnData = Some ''0x'', cr_error = None\<rparr>) calls',
             ex_error = None, ex_timestamp = rt_dateNow env,
             ex_explorerUrl = Some (generateExplorerUrl env txHash)\<rparr>))"

definition TradeAgent_execute ::
  "Env \<Rightarrow> token_table \<Rightarrow> string \<Rightarrow> AgentIntent \<Rightarrow> js_error + ExecutionResult" where
  "TradeAgent_execute env supportedTokens swapAdapterAddress intent =
     validate_then_try env intent
       (TradeAgent_execute_try env supportedTokens swapAdapterAddress intent)
       (execute_caught env)"

definition TradeAgent :: "Env \<Rightarrow> string \<Rightarrow> 'w Agent" where
  "TradeAgent env swapAdapterAddress =
     \<lparr>agent_id = ''trade-agent'', agent_name = ''Trade Agent'',
      capabilities = [''swap'', ''token_analysis'', ''price_discovery'', ''route_optimization''],
      simulate = (\<lambda>intent w.
         (TradeAgent_simulate env initializeSupportedTokens swapAdapterAddress intent, w)),
      execute = (\<lambda>intent w.
         (TradeAgent_execute env initializeSupportedTokens swapAdapterAddress intent, w))\<rparr>"

subsection \<open>PortfolioAgent\<close>

record PortfolioParameters =
  pf_operation :: jsval
  pf_timeframe :: jsval
  pf_includeStaking :: bool
  pf_includeTransactions :: bool

definition parsePortfolioParameters :: "AgentIntent \<Rightarrow> PortfolioParameters" where
  "parsePortfolioParameters intent =
     (let params = parameters intent
      in \<lparr>pf_operation = js_or (params ''operation'') (JStr ''get_balances''),
          pf_timeframe = js_or (params ''timeframe'') (JStr ''24h''),
          pf_includeStaking = (params ''includeStaking'' \<noteq> JBool False),
          pf_includeTransactions = (params ''includeTransactions'' = JBool True)\<rparr>)"

definition PortfolioAgent_generateJustification :: "Env \<Rightarrow> PortfolioParameters \<Rightarrow> string" where
  "PortfolioAgent_generateJustification env p =
     (if pf_operation p = JStr ''get_balances'' then
        ''Retrieving current token balances'' @
        (if pf_includeStaking p then '' and staking positions'' else []) @
        '' for comprehensive portfolio view.''
      else if pf_operation p = JStr ''get_pnl'' then
        ''Calculating profit/loss over '' @ template env (pf_timeframe p) @
        '' timeframe, including trading gains, staking rewards, and gas costs.''
      else if pf_operation p = JStr ''get_positions'' then
        ''Analyzing all active positions including staking, liquidity pools, and lending protocols.''
      else if pf_operation p = JStr ''get_history'' then
        ''Fetching transaction history for the past '' @ template env (pf_timeframe p) @
        '' to analyze portfolio activity.''
      else ''Executing portfolio query operation.'')"

text \<open>The \<^verbatim>\<open>try\<close> block of \<^verbatim>\<open>PortfolioAgent.simulate\<close>: nothing in it throws.\<close>

definition PortfolioAgent_simulate_try :: "Env \<Rightarrow> AgentIntent \<Rightarrow> js_error + SimulationResult" where
  "PortfolioAgent_simulate_try env intent =
     (let p = parsePortfolioParameters intent;
          calls' = [];
          justification' = PortfolioAgent_generateJustification env p
      in Inr \<lparr>success = True, gasEstimate = 50000, valueEstimate = 0, risk = LOW,
              calls = calls', justification = justification', warnings = [],
              confidence = 0.95\<rparr>)"

definition PortfolioAgent_simulate_catch :: "js_error \<Rightarrow> SimulationResult" where
  "PortfolioAgent_simulate_catch error =
     \<lparr>success = False, gasEstimate = 0, valueEstimate = 0, risk = LOW, calls = [],
      justification = ''Failed to simulate portfolio query: '' @ error_message error,
      warnings = [''Query simulation failed''],
      confidence = 0\<rparr>"

definition PortfolioAgent_simulate :: "Env \<Rightarrow> AgentIntent \<Rightarrow> js_error + SimulationResult" where
  "PortfolioAgent_simulate env intent =
     validate_then_try env intent (PortfolioAgent_simulate_try env intent)
       PortfolioAgent_simulate_catch"

text \<open>The result the three read-only agents return for a serialised payload.\<close>

definition query_result :: "Env \<Rightarrow> string \<Rightarrow> ExecutionResult" where
  "query_result env payload =
     \<lparr>ex_success = True, ex_transactionHash = None, ex_gasUsed = Some 0,
      ex_valueTransferred = Some 0,
      ex_calls = [\<lparr>cr_success = True, cr_gasUsed = 0, cr_returnData = Some payload,
                   cr_error = None\<rparr>],
      ex_error = None, ex_timestamp = rt_dateNow env, ex_explorerUrl = None\<rparr>"

definition PortfolioAgent_execute_try :: "Env \<Rightarrow> AgentIntent \<Rightarrow> js_error + ExecutionResult" where
  "PortfolioAgent_execute_try env intent =
     (let p = parsePortfolioParameters intent
      in and_then
           (if pf_operation p = JStr ''get_balances'' then
              rt_query env ''getBalances'' [JStr (userAddress intent), JBool (pf_includeStaking p)]
            else if pf_operation p = JStr ''get_pnl'' then
              rt_query env ''getPnL'' [JStr (userAddress intent), pf_timeframe p]
            else if pf_operation p = JStr ''get_positions'' then
              rt_query env ''getPositions'' [JStr (userAddress intent)]
            else if pf_operation p = JStr ''get_history'' then
              rt_query env ''getHistory'' [JStr (userAddress intent), pf_timeframe p]
            else Inl (Error (''Unsupported operation: '' @ template env (pf_operation p))))
           (\<lambda>payload. Inr (query_result env payload)))"

definition PortfolioAgent_execute :: "Env \<Rightarrow> AgentIntent \<Rightarrow> js_error + ExecutionResult" where
  "PortfolioAgent_execute env intent =
     validate_then_try env intent (PortfolioAgent_execute_try env intent) (execute_caught env)"

definition PortfolioAgent :: "Env \<Rightarrow> 'w Agent" where
  "PortfolioAgent env =
     \<lparr>agent_id = ''portfolio-agent'', agent_name = ''Portfolio Agent'',
      capabilities = [''portfolio_analysis'', ''balance_tracking'', ''pnl_calculation'',
                      ''asset_allocation'', ''performance_metrics''],
      simulate = (\<lambda>intent w. (PortfolioAgent_simulate env intent, w)),
      execute = (\<lambda>intent w. (PortfolioAgent_execute env intent, w))\<rparr>"

subsection \<open>ResearchAgent\<close>

record ResearchParameters =
  rs_operation :: jsval
  rs_query :: jsval
  rs_tokens :: jsval
  rs_protocols :: jsval
  rs_timeframe :: jsval

definition parseResearchParameters :: "AgentIntent \<Rightarrow> ResearchParameters" where
  "parseResearchParameters intent =
     (let params = parameters intent
      in \<lparr>rs_operation = js_or (params ''operation'') (JStr ''market_data''),
          rs_query = js_or (js_or (params ''query'') (JStr (description intent))) (JStr []),
          rs_tokens = params ''tokens'',
          rs_protocols = params ''protocols'',
          rs_timeframe = js_or (params ''timeframe'') (JStr ''24h'')\<rparr>)"

definition ResearchAgent_generateJustification ::
  "Env \<Rightarrow> ResearchParameters \<Rightarrow> js_error + string" where
  "ResearchAgent_generateJustification env p =
     (if rs_operation p = JStr ''market_data'' then
        and_then (js_opt_join env ''params.tokens'' '', '' (rs_tokens p)) (\<lambda>joined.
        Inr (''Fetching real-time market data for '' @
             template env (js_or joined (JStr ''requested tokens'')) @
             '' including price, volume, and sentiment.''))
      else if rs_operation p = JStr ''news'' then
        Inr (''Searching for relevant news and updates related to: '' @
             template env (rs_query p) @ ''. Analyzing sentiment and relevance.'')
      else if rs_operation p = JStr ''token_analysis'' then
        Inr (''Conducting comprehensive technical and fundamental analysis for '' @
             template env (js_or (js_opt_first (rs_tokens p)) (rs_query p)) @ ''.'')
      else if rs_operation p = JStr ''protocol_analysis'' then
        Inr (''Evaluating '' @ template env (js_or (js_opt_first (rs_protocols p)) (rs_query p)) @
             '' protocol: TVL, yields, risk factors, and recommendations.'')
      else if rs_operation p = JStr ''trend_analysis'' then
        Inr (''Analyzing current trends and market sentiment for: '' @
             template env (rs_query p) @ ''. Providing actionable insights.'')
      else Inr ''Executing research query.'')"

text \<open>The \<^verbatim>\<open>try\<close> block of \<^verbatim>\<open>ResearchAgent.simulate\<close>.\<close>

definition ResearchAgent_simulate_try :: "Env \<Rightarrow> AgentIntent \<Rightarrow> js_error + SimulationResult" where
  "ResearchAgent_simulate_try env intent =
     (let p = parseResearchParameters intent
      in and_then (ResearchAgent_generateJustification env p) (\<lambda>justification'.
         Inr \<lparr>success = True, gasEstimate = 0, valueEstimate = 0, risk = LOW, calls = [],
               justification = justification', warnings = [], confidence = 0.85\<rparr>))"

definition ResearchAgent_simulate_catch :: "js_error \<Rightarrow> SimulationResult" where
  "ResearchAgent_simulate_catch error =
     \<lparr>success = False, gasEstimate = 0, valueEstimate = 0, risk = LOW, calls = [],
      justification = ''Failed to simulate research query: '' @ error_message error,
      warnings = [''Research simulation failed''],
      confidence = 0\<rparr>"

definition ResearchAgent_simulate :: "Env \<Rightarrow> AgentIntent \<Rightarrow> js_error + SimulationResult" where
  "ResearchAgent_simulate env intent =
     validate_then_try env intent (ResearchAgent_simulate_try env intent)
       ResearchAgent_simulate_catch"

text \<open>
  The \<^verbatim>\<open>try\<close> block of \<^verbatim>\<open>ResearchAgent.execute\<close>: a fresh cache entry for the parameters is
  the result; otherwise the \<^verbatim>\<open>switch\<close> on the operation runs a helper or throws.
\<close>

definition ResearchAgent_execute_try :: "Env \<Rightarrow> AgentIntent \<Rightarrow> js_error + ExecutionResult" where
  "ResearchAgent_execute_try env intent =
     (let p = parseResearchParameters intent
      in and_then
           (case rt_cached env [rs_operation p, rs_query p, rs_tokens p, rs_protocols p,
                                rs_timeframe p] of
              Some payload \<Rightarrow> Inr payload
            | None \<Rightarrow>
                if rs_operation p = JStr ''market_data'' then
                  rt_query env ''getMarketData'' [js_or (rs_tokens p) (JArr [])]
                else if rs_operation p = JStr ''news'' then
                  rt_query env ''getNews'' [rs_query p, rs_timeframe p]
                else if rs_operation p = JStr ''token_analysis'' then
                  rt_query env ''analyzeToken'' [js_or (js_opt_first (rs_tokens p)) (rs_query p)]
                else if rs_operation p = JStr ''protocol_analysis'' then
                  rt_query env ''analyzeProtocol''
                    [js_or (js_opt_first (rs_protocols p)) (rs_query p)]
                else if rs_operation p = JStr ''trend_analysis'' then
                  rt_query env ''analyzeTrends'' [rs_query p, rs_timeframe p]
                else Inl (Error (''Unsupported operation: '' @ template env (rs_operation p))))
           (\<lambda>payload. Inr (query_result env payload)))"

definition ResearchAgent_execute :: "Env \<Rightarrow> AgentIntent \<Rightarrow> js_error + ExecutionResult" where
  "ResearchAgent_execute env intent =
     validate_then_try env intent (ResearchAgent_execute_try env intent) (execute_caught env)"

definition ResearchAgent :: "Env \<Rightarrow> 'w Agent" where
  "ResearchAgent env =
     \<lparr>agent_id = ''research-agent'', agent_name = ''Research Agent'',
      capabilities = [''market_research'', ''news_aggregation'', ''token_analysis'',
                      ''protocol_analysis'', ''sentiment_analysis'', ''trend_detection''],
      simulate = (\<lambda>intent w. (ResearchAgent_simulate env intent, w)),
      execute = (\<lambda>intent w. (ResearchAgent_execute env intent, w))\<rparr>"

subsection \<open>AnalyticsAgent\<close>











subsection \<open>Inputs for the examples\<close>

text \<open>
  A runtime for the examples: numbers print as \<open>n\<close>, the encoders accept everything, no
  cache entry is fresh and every data helper returns an empty JSON object.
\<close>

definition example_env :: Env where
  "example_env =
     \<lparr>rt_zodMessage = (\<lambda>issues. ''zod issues''),
      rt_toString = (\<lambda>v. ''[object Object]''),
      rt_toNumber = (\<lambda>v. 0),
      rt_numberToString = (\<lambda>r. ''n''),
      rt_toFixed = (\<lambda>r digits. ''n''),
      rt_toLocaleString = (\<lambda>r. ''n''),
      rt_parseFloat = (\<lambda>v. 0),
      rt_parseUnits = (\<lambda>v decimals. Inr 0),
      rt_encodeFunctionData = (\<lambda>fragment arguments. Inr ''0x''),
      rt_dateNow = 1700000000000,
      rt_random = 0.5,
      rt_mockTxHash = ''0xabc'',
      rt_explorerUrl = None,
      rt_cached = (\<lambda>key. None),
      rt_query = (\<lambda>helper arguments. Inr ''{}'')\<rparr>"

text \<open>An intent with the given description, parameters, gas ceiling and priority.\<close>

definition example_intent ::
  "string \<Rightarrow> (string \<times> jsval) list \<Rightarrow> real \<Rightarrow> Priority option \<Rightarrow> AgentIntent" where
  "example_intent text' entries gas prio =
     \<lparr>intent_id = ''trace_1'', userAddress = ''0xUser'', description = text',
      parameters = (\<lambda>key. case Map_get entries key of None \<Rightarrow> JUndefined | Some v \<Rightarrow> v),
      maxGas = gas, maxValue = 0, deadline = 1700003600, slippage = None, priority = prio\<rparr>"

text \<open>A plan with the given steps.\<close>

definition example_plan :: "AgentIntent list \<Rightarrow> ExecutionPlan" where
  "example_plan ss =
     \<lparr>plan_id = ''trace_0'', plan_userAddress = ''0xUser'',
      classification =
        \<lparr>cls_intent = ''complex_operation'', cls_confidence = 0.9, cls_requiredAgents = [],
         cls_parameters = (\<lambda>key. JUndefined), cls_priority = PriorityMedium,
         cls_riskLevel = PriorityLow\<rparr>,
      steps = ss, estimatedGas = 0, estimatedValue = 0, riskAssessment = [],
      explanation = []\<rparr>"

text \<open>
  The steps of the examples. \<open>balances_step\<close> and \<open>unstake_step\<close> pass validation;
  \<open>pnl_step\<close> is the step \<^verbatim>\<open>createExecutionSteps\<close> builds for \<^verbatim>\<open>portfolio_analysis\<close>, with
  its \<^verbatim>\<open>maxGas: 0\<close>; \<open>unstake_step\<close> has no \<^verbatim>\<open>positionId\<close>; no agent serves \<open>bridge_step\<close>.
\<close>

definition balances_step :: AgentIntent where
  "balances_step =
     example_intent ''Get balances'' [(''operation'', JStr ''get_balances'')] 100000 None"

definition pnl_step :: AgentIntent where
  "pnl_step =
     example_intent ''Analyze portfolio performance'' [(''operation'', JStr ''get_pnl'')] 0 None"

definition unstake_step :: "Priority \<Rightarrow> AgentIntent" where
  "unstake_step prio =
     example_intent ''Unstake 5 STT''
       [(''operation'', JStr ''unstake''), (''amount'', JStr ''5'')] 250000 (Some prio)"

definition bridge_step :: AgentIntent where
  "bridge_step =
     example_intent ''Bridge 5 STT'' [(''operation'', JStr ''bridge'')] 100000 (Some PriorityLow)"

definition tokens_step :: AgentIntent where
  "tokens_step =
     example_intent ''Research market data''
       [(''operation'', JStr ''market_data''), (''tokens'', JStr ''ETH'')] 100000 None"

definition stake_step_no_gas :: AgentIntent where
  "stake_step_no_gas =
     example_intent ''Stake 100 STT''
       [(''operation'', JStr ''stake''), (''amount'', JStr ''100'')] 0 None"

text \<open>The registry of the examples: the Stake and the Portfolio agent.\<close>

text \<open>The clock of the examples.\<close>

definition example_clock :: "unit \<Rightarrow> real" where
  "example_clock w = 0"

definition example_registry :: "unit AgentRegistry" where
  "example_registry =
     registry_after [Register (StakeAgent example_env ''0xStaking''),
                     Register (PortfolioAgent example_env)]"

text \<open>A minimal agent with the given id and capabilities: its methods throw.\<close>

definition stub_agent :: "string \<Rightarrow> string list \<Rightarrow> unit Agent" where
  "stub_agent ident caps =
     \<lparr>agent_id = ident, agent_name = ident, capabilities = caps,
      simulate = (\<lambda>intent w. (Inl NonError, w)),
      execute = (\<lambda>intent w. (Inl NonError, w))\<rparr>"

section \<open>Verified properties\<close>

subsection \<open>The risk scorer\<close>




subsection \<open>The registry\<close>

lemma Map_set_map_fst:
  "map fst (Map_set k v kvs) = (if k \<in> fst ` set kvs then map fst kvs else map fst kvs @ [k])"
proof (induction kvs)
  case Nil
  show ?case by simp
next
  case (Cons p kvs)
  obtain k' v' where p: "p = (k', v')" by (cases p)
  show ?case
  proof (cases "k' = k")
    case True
    with p show ?thesis by simp
  next
    case False
    with p Cons.IH show ?thesis by simp
  qed
qed

lemma Map_set_keys: "fst ` set (Map_set k v kvs) = insert k (fst ` set kvs)"
proof -
  have "set (map fst (Map_set k v kvs)) = insert k (set (map fst kvs))"
    unfolding Map_set_map_fst by auto
  then show ?thesis by simp
qed

lemma Map_set_distinct: "distinct (map fst kvs) \<Longrightarrow> distinct (map fst (Map_set k v kvs))"
  unfolding Map_set_map_fst by simp

lemma Map_set_entries:
  "set (Map_set k v kvs) \<subseteq> insert (k, v) (set kvs)"
  by (induction kvs) (auto split: if_splits)

lemma Map_get_set_same: "Map_get (Map_set k v kvs) k = Some v"
  by (induction kvs) auto

lemma Map_get_set_other: "k' \<noteq> k \<Longrightarrow> Map_get (Map_set k v kvs) k' = Map_get kvs k'"
  by (induction kvs) auto


lemma Map_set_length_present: "k \<in> fst ` set kvs \<Longrightarrow> length (Map_set k v kvs) = length kvs"
  using arg_cong [OF Map_set_map_fst [of k v kvs], of length] by simp

lemma Map_get_Some_iff:
  "distinct (map fst kvs) \<Longrightarrow> Map_get kvs k = Some v \<longleftrightarrow> (k, v) \<in> set kvs"
  by (induction kvs) (auto simp: rev_image_eqI split: if_splits)

lemma Map_set_removes_old:
  "distinct (map fst kvs) \<Longrightarrow> (k, v') \<in> set (Map_set k v kvs) \<Longrightarrow> v' = v"
  using Map_set_distinct [of kvs k v] Map_get_Some_iff [of "Map_set k v kvs" k v'] Map_get_set_same [of k v kvs]
  by simp

lemma registry_inv_empty: "registry_inv []"
  by (simp add: registry_inv_def)

lemma registry_inv_register: "registry_inv agents \<Longrightarrow> registry_inv (register agent agents)"
  unfolding registry_inv_def register_def list_all_iff
  using Map_set_distinct [of agents "agent_id agent" agent] Map_set_entries [of "agent_id agent" agent agents]
  by auto

lemma registry_inv_unregister: "registry_inv agents \<Longrightarrow> registry_inv (unregister ident agents)"
  unfolding registry_inv_def unregister_def Map_delete_def list_all_iff
  by (auto simp: distinct_map_filter)

lemma registry_after_snoc:
  "registry_after (cs @ [c]) = registry_call c (registry_after cs)"
  by (simp add: registry_after_def)

lemma registry_inv_after: "registry_inv (registry_after cs)"
proof (induction cs rule: rev_induct)
  case Nil
  show ?case by (simp add: registry_after_def registry_inv_empty)
next
  case (snoc c cs)
  then show ?case
    by (cases c) (simp_all add: registry_after_snoc registry_inv_register registry_inv_unregister)
qed

lemma registered_iff:
  assumes "registry_inv agents"
  shows "get agents (agent_id a) = Some a \<longleftrightarrow> a \<in> set (getAll agents)"
proof -
  from assms have d: "distinct (map fst agents)" and k: "\<forall>kv \<in> set agents. fst kv = agent_id (snd kv)"
    by (simp_all add: registry_inv_def list_all_iff)
  have "a \<in> set (getAll agents) \<longleftrightarrow> (agent_id a, a) \<in> set agents"
    using k by (force simp: getAll_def Map_values_def)
  then show ?thesis
    using Map_get_Some_iff [OF d] by (simp add: get_def)
qed

lemma getAll_ids_distinct:
  assumes "registry_inv agents"
  shows "distinct (map agent_id (getAll agents))"
proof -
  from assms have d: "distinct (map fst agents)" and k: "\<forall>kv \<in> set agents. fst kv = agent_id (snd kv)"
    by (simp_all add: registry_inv_def list_all_iff)
  have "map agent_id (getAll agents) = map fst agents"
    using k by (simp add: getAll_def Map_values_def)
  with d show ?thesis by simp
qed

lemma getAll_ids: "registry_inv agents \<Longrightarrow> agent_id ` set (getAll agents) = fst ` set agents"
  by (force simp: registry_inv_def list_all_iff getAll_def Map_values_def)



lemma Map_set_present:
  "distinct (map fst kvs) \<Longrightarrow> k \<in> fst ` set kvs \<Longrightarrow>
   Map_set k v kvs = map (\<lambda>kv. if fst kv = k then (k, v) else kv) kvs"
proof (induction kvs)
  case Nil
  then show ?case by simp
next
  case (Cons p kvs)
  obtain k' v' where p: "p = (k', v')" by (cases p)
  show ?case
  proof (cases "k' = k")
    case True
    with Cons.prems p have "k \<notin> fst ` set kvs" by simp
    then have "map (\<lambda>kv. if fst kv = k then (k, v) else kv) kvs = kvs"
      by (intro map_idI) auto
    with True p show ?thesis by simp
  next
    case False
    with Cons p show ?thesis by simp
  qed
qed

lemma getAll_register_present:
  assumes inv: "registry_inv agents" and present: "agent_id new \<in> agent_id ` set (getAll agents)"
  shows "getAll (register new agents) =
         map (\<lambda>a. if agent_id a = agent_id new then new else a) (getAll agents)"
proof -
  from inv have d: "distinct (map fst agents)" and k: "\<forall>kv \<in> set agents. fst kv = agent_id (snd kv)"
    by (simp_all add: registry_inv_def list_all_iff)
  from present have "agent_id new \<in> fst ` set agents"
    using getAll_ids [OF inv] by simp
  from Map_set_present [OF d this]
  show ?thesis
    using k by (simp add: getAll_def register_def Map_values_def)
qed





text \<open>
  Claim C10. The registry keys agents by id: after any calls no two registered agents
  share an id. Registering an agent under an id already in use replaces the earlier agent
  in place: \<^verbatim>\<open>get\<close> of that id is the new agent, every agent of that id in \<^verbatim>\<open>getAll\<close> is
  the new one, and the earlier agent is no longer in \<^verbatim>\<open>getAll\<close> or in any
  \<^verbatim>\<open>getByCapability\<close> result.
\<close>

theorem register_same_id_replaces:
  fixes cs :: "'w RegistryCall list"
  shows
  "distinct (map agent_id (getAll (registry_after cs))) \<and>
   get (register new (registry_after cs)) (agent_id new) = Some new \<and>
   (\<forall>a \<in> set (getAll (register new (registry_after cs))). agent_id a = agent_id new \<longrightarrow> a = new) \<and>
   (get (registry_after cs) (agent_id new) = Some old \<and> old \<noteq> new \<longrightarrow>
      old \<notin> set (getAll (register new (registry_after cs))) \<and>
      old \<notin> set (getByCapability (register new (registry_after cs)) c) \<and>
      getAll (register new (registry_after cs)) =
        map (\<lambda>a. if agent_id a = agent_id new then new else a) (getAll (registry_after cs)))"
proof -
  let ?r = "registry_after cs" and ?r' = "register new (registry_after cs)"
  have inv: "registry_inv ?r" by (rule registry_inv_after)
  have inv': "registry_inv ?r'" by (rule registry_inv_register [OF inv])
  have d: "distinct (map agent_id (getAll ?r))" by (rule getAll_ids_distinct [OF inv])
  have g: "get ?r' (agent_id new) = Some new"
    by (simp add: get_def register_def Map_get_set_same)
  have only: "\<forall>a \<in> set (getAll ?r'). agent_id a = agent_id new \<longrightarrow> a = new"
    using registered_iff [OF inv'] g by (metis option.inject)
  have repl: "get ?r (agent_id new) = Some old \<and> old \<noteq> new \<longrightarrow>
      old \<notin> set (getAll ?r') \<and> old \<notin> set (getByCapability ?r' c) \<and>
      getAll ?r' = map (\<lambda>a. if agent_id a = agent_id new then new else a) (getAll ?r)"
  proof
    assume h: "get ?r (agent_id new) = Some old \<and> old \<noteq> new"
    from inv have k: "\<forall>kv \<in> set ?r. fst kv = agent_id (snd kv)" and dk: "distinct (map fst ?r)"
      by (simp_all add: registry_inv_def list_all_iff)
    from h have "(agent_id new, old) \<in> set ?r"
      using Map_get_Some_iff [OF dk] by (simp add: get_def)
    with k have same: "agent_id old = agent_id new" and mem: "old \<in> set (getAll ?r)"
      by (force simp: getAll_def Map_values_def)+
    from only same h have notin: "old \<notin> set (getAll ?r')" by blast
    then have notcap: "old \<notin> set (getByCapability ?r' c)"
      by (simp add: getByCapability_def getAll_def)
    from mem same have "agent_id new \<in> agent_id ` set (getAll ?r)" by (metis imageI)
    from getAll_register_present [OF inv this] notin notcap
    show "old \<notin> set (getAll ?r') \<and> old \<notin> set (getByCapability ?r' c) \<and>
      getAll ?r' = map (\<lambda>a. if agent_id a = agent_id new then new else a) (getAll ?r)"
      by simp
  qed
  from d g only repl show ?thesis by blast
qed

theorem register_same_id_replaces_witness:
  "get (register (stub_agent ''t1'' [''stake'']) (registry_after [Register (stub_agent ''t1'' [''swap'']), Register (stub_agent ''t2'' [''swap''])])) ''t1''
     = Some (stub_agent ''t1'' [''stake'']) \<and>
   stub_agent ''t1'' [''swap''] \<notin> set (getAll (register (stub_agent ''t1'' [''stake''])
        (registry_after [Register (stub_agent ''t1'' [''swap'']), Register (stub_agent ''t2'' [''swap''])]))) \<and>
   getAll (register (stub_agent ''t1'' [''stake''])
        (registry_after [Register (stub_agent ''t1'' [''swap'']), Register (stub_agent ''t2'' [''swap''])]))
     = [stub_agent ''t1'' [''stake''], stub_agent ''t2'' [''swap'']]"
proof -
  let ?old = "stub_agent ''t1'' [''swap'']" and ?new = "stub_agent ''t1'' [''stake'']"
  let ?cs = "[Register ?old, Register (stub_agent ''t2'' [''swap''])]"
  have idn: "agent_id ?new = ''t1''" by (simp add: stub_agent_def)
  have h: "get (registry_after ?cs) (agent_id ?new) = Some ?old \<and> ?old \<noteq> ?new"
    by (simp add: registry_after_def register_def get_def stub_agent_def)
  have all: "getAll (registry_after ?cs) = [?old, stub_agent ''t2'' [''swap'']]"
    by (simp add: registry_after_def register_def getAll_def Map_values_def stub_agent_def)
  from register_same_id_replaces [of ?cs ?new ?old "''swap''"] h
  have "get (register ?new (registry_after ?cs)) (agent_id ?new) = Some ?new
      \<and> ?old \<notin> set (getAll (register ?new (registry_after ?cs)))
      \<and> getAll (register ?new (registry_after ?cs)) =
        map (\<lambda>a. if agent_id a = agent_id ?new then ?new else a) (getAll (registry_after ?cs))"
    by blast
  then show ?thesis
    unfolding all idn by (simp add: stub_agent_def)
qed


subsection \<open>Validator selection\<close>


















subsection \<open>The loop of executePlan\<close>

text \<open>One pass of the loop body, by what the step does.\<close>

lemma executePlan_loop_continue:
  "executePlan_try reg s w = (Inr r, w1) \<Longrightarrow> ex_success r \<or> priority s = Some PriorityLow \<Longrightarrow>
   executePlan_loop dateNow reg (s # ss) acc w = executePlan_loop dateNow reg ss (acc @ [r]) w1"
  by auto

lemma executePlan_loop_stop:
  "executePlan_try reg s w = (Inr r, w1) \<Longrightarrow> \<not> ex_success r \<Longrightarrow> priority s \<noteq> Some PriorityLow \<Longrightarrow>
   executePlan_loop dateNow reg (s # ss) acc w = (acc @ [r], True, w1)"
  by simp

lemma executePlan_loop_throw:
  "executePlan_try reg s w = (Inl e, w1) \<Longrightarrow>
   executePlan_loop dateNow reg (s # ss) acc w =
     (acc @ [executePlan_caught e (dateNow w1)], True, w1)"
  by simp

lemma executePlan_loop_cases:
  obtains (throw) e w1 where "executePlan_try reg s w = (Inl e, w1)"
  | (stop) r w1 where "executePlan_try reg s w = (Inr r, w1)" "\<not> ex_success r"
      "priority s \<noteq> Some PriorityLow"
  | (continue) r w1 where "executePlan_try reg s w = (Inr r, w1)"
      "ex_success r \<or> priority s = Some PriorityLow"
proof -
  obtain o1 w1 where t: "executePlan_try reg s w = (o1, w1)"
    by (cases "executePlan_try reg s w")
  show thesis
  proof (cases o1)
    case (Inl e)
    with t throw show ?thesis by blast
  next
    case (Inr r)
    with t stop continue show ?thesis by blast
  qed
qed

text \<open>The results pushed so far stay in front of what the loop adds.\<close>

lemma executePlan_loop_acc:
  "executePlan_loop dateNow reg ss acc w =
     (case executePlan_loop dateNow reg ss [] w of (rs, b, w') \<Rightarrow> (acc @ rs, b, w'))"
proof (induction ss arbitrary: acc w)
  case Nil
  show ?case by simp
next
  case (Cons s ss)
  show ?case
  proof (cases rule: executePlan_loop_cases [of reg s w])
    case (throw e w1)
    show ?thesis unfolding executePlan_loop_throw [OF throw] by simp
  next
    case (stop r w1)
    show ?thesis unfolding executePlan_loop_stop [OF stop] by simp
  next
    case (continue r w1)
    have a: "executePlan_loop dateNow reg ss (acc @ [r]) w1 =
        (case executePlan_loop dateNow reg ss [] w1 of
           (rs, b, w') \<Rightarrow> ((acc @ [r]) @ rs, b, w'))"
      by (rule Cons.IH)
    have b: "executePlan_loop dateNow reg ss ([] @ [r]) w1 =
        (case executePlan_loop dateNow reg ss [] w1 of
           (rs, b, w') \<Rightarrow> (([] @ [r]) @ rs, b, w'))"
      by (rule Cons.IH)
    show ?thesis
      unfolding executePlan_loop_continue [OF continue] a b by (simp split: prod.splits)
  qed
qed

lemma executePlan_loop_length:
  "executePlan_loop dateNow reg ss [] w = (rs, b, w') \<Longrightarrow>
   length rs \<le> length ss \<and> (\<not> b \<longrightarrow> length rs = length ss) \<and> (b \<longrightarrow> rs \<noteq> [])"
proof (induction ss arbitrary: rs b w w')
  case Nil
  then show ?case by auto
next
  case (Cons s ss)
  show ?case
  proof (cases rule: executePlan_loop_cases [of reg s w])
    case (throw e w1)
    with Cons.prems show ?thesis unfolding executePlan_loop_throw [OF throw] by auto
  next
    case (stop r w1)
    with Cons.prems show ?thesis unfolding executePlan_loop_stop [OF stop] by auto
  next
    case (continue r w1)
    obtain rs2 b2 w2 where l: "executePlan_loop dateNow reg ss [] w1 = (rs2, b2, w2)"
      by (cases "executePlan_loop dateNow reg ss [] w1") auto
    from Cons.prems have "executePlan_loop dateNow reg ss ([] @ [r]) w1 = (rs, b, w')"
      unfolding executePlan_loop_continue [OF continue] .
    with l have "rs = r # rs2" "b = b2"
      using executePlan_loop_acc [of dateNow reg ss "[] @ [r]" w1] by simp_all
    with Cons.IH [OF l] show ?thesis by simp
  qed
qed

text \<open>A plan split in two: the second part runs only when the first ended without a break.\<close>

lemma executePlan_loop_append:
  "executePlan_loop dateNow reg pre [] w = (rs, b, w1) \<Longrightarrow>
   executePlan_loop dateNow reg (pre @ post) acc w =
     (if b then (acc @ rs, True, w1) else executePlan_loop dateNow reg post (acc @ rs) w1)"
proof (induction pre arbitrary: rs b w w1 acc)
  case Nil
  then show ?case by auto
next
  case (Cons s ss)
  show ?case
  proof (cases rule: executePlan_loop_cases [of reg s w])
    case (throw e w0)
    from Cons.prems show ?thesis
      unfolding append_Cons executePlan_loop_throw [OF throw] by auto
  next
    case (stop r w0)
    from Cons.prems show ?thesis
      unfolding append_Cons executePlan_loop_stop [OF stop] by auto
  next
    case (continue r w0)
    obtain rs2 b2 w2 where l: "executePlan_loop dateNow reg ss [] w0 = (rs2, b2, w2)"
      by (cases "executePlan_loop dateNow reg ss [] w0") auto
    from Cons.prems have "executePlan_loop dateNow reg ss ([] @ [r]) w0 = (rs, b, w1)"
      unfolding executePlan_loop_continue [OF continue] .
    with l have e: "rs = r # rs2" "b = b2" "w1 = w2"
      using executePlan_loop_acc [of dateNow reg ss "[] @ [r]" w0] by simp_all
    from Cons.IH [OF l, of "acc @ [r]"] e show ?thesis
      unfolding append_Cons executePlan_loop_continue [OF continue] by simp
  qed
qed


text \<open>The examples, evaluated.\<close>

lemma example_capabilities:
  "inferCapabilityFromStep balances_step = ''portfolio_analysis''"
  "inferCapabilityFromStep pnl_step = ''portfolio_analysis''"
  "inferCapabilityFromStep (unstake_step prio) = ''unstake''"
  "inferCapabilityFromStep bridge_step = ''unknown''"
  by (simp_all add: inferCapabilityFromStep_def balances_step_def pnl_step_def unstake_step_def
        bridge_step_def example_intent_def toLowerCase_def toLowerCase_char_def)

lemma example_registry_lookup:
  "getByCapability example_registry ''portfolio_analysis'' = [PortfolioAgent example_env]"
  "getByCapability example_registry ''unstake'' = [StakeAgent example_env ''0xStaking'']"
  "getByCapability example_registry ''unknown'' = []"
  by (simp_all add: example_registry_def registry_after_def register_def getByCapability_def
        Map_values_def StakeAgent_def PortfolioAgent_def)

lemma example_valid:
  "AgentIntentSchema_safeParse balances_step = []"
  "AgentIntentSchema_safeParse (unstake_step prio) = []"
  "AgentIntentSchema_safeParse tokens_step = []"
  "AgentIntentSchema_safeParse pnl_step = [too_small ''maxGas'']"
  "AgentIntentSchema_safeParse stake_step_no_gas = [too_small ''maxGas'']"
  by (simp_all add: AgentIntentSchema_safeParse_def balances_step_def unstake_step_def
        tokens_step_def pnl_step_def stake_step_no_gas_def example_intent_def)

text \<open>The two ways through \<open>validate_then_try\<close>.\<close>

lemma validate_then_try_invalid:
  "AgentIntentSchema_safeParse intent \<noteq> [] \<Longrightarrow>
   validate_then_try env intent t c =
     Inl (Error (''Invalid intent: '' @ rt_zodMessage env (AgentIntentSchema_safeParse intent)))"
  by (simp add: validate_then_try_def validateIntent_def)

lemma validate_then_try_valid:
  "AgentIntentSchema_safeParse intent = [] \<Longrightarrow>
   validate_then_try env intent t c = Inr (case t of Inl e \<Rightarrow> c e | Inr r \<Rightarrow> r)"
  by (simp add: validate_then_try_def validateIntent_def split: sum.splits)

lemma example_balances_execute:
  "PortfolioAgent_execute example_env balances_step = Inr (query_result example_env ''{}'')"
  unfolding PortfolioAgent_execute_def validate_then_try_valid [OF example_valid(1)]
  by (simp add: PortfolioAgent_execute_try_def parsePortfolioParameters_def balances_step_def
        example_intent_def js_or_def and_then_def example_env_def)

lemma example_unstake_execute:
  "StakeAgent_execute example_env initializeValidators ''0xStaking'' (unstake_step prio) =
     Inr (execute_caught example_env (Error ''Position ID required for unstaking''))"
  unfolding StakeAgent_execute_def validate_then_try_valid [OF example_valid(2)]
  by (simp add: StakeAgent_execute_try_def parseStakeParameters_def buildStakeCalls_def
        unstake_step_def example_intent_def js_or_def and_then_def)

lemma example_tries:
  "executePlan_try example_registry balances_step w = (Inr (query_result example_env ''{}''), w)"
  "executePlan_try example_registry (unstake_step prio) w =
     (Inr (execute_caught example_env (Error ''Position ID required for unstaking'')), w)"
  "executePlan_try example_registry bridge_step w =
     (Inl (Error ''No agent found for capability: unknown''), w)"
  by (simp_all add: executePlan_try_def example_capabilities example_registry_lookup
        example_balances_execute example_unstake_execute StakeAgent_def PortfolioAgent_def)

lemma example_results:
  "ex_success (query_result env payload)" "\<not> ex_success (execute_caught env e)"
  "\<not> ex_success (executePlan_caught e now)"
  by (simp_all add: query_result_def execute_caught_def executePlan_caught_def)

lemma example_priorities:
  "priority balances_step = None" "priority (unstake_step prio) = Some prio"
  "priority bridge_step = Some PriorityLow"
  by (simp_all add: balances_step_def unstake_step_def bridge_step_def example_intent_def)

lemma example_plan_steps: "(example_plan ss)\<lparr>steps := ss'\<rparr> = example_plan ss'"
  by (simp add: example_plan_def)




text \<open>
  Claim C5, as amended. In \<^verbatim>\<open>executePlan\<close> a step whose inferred capability matches no
  registered agent is recorded as a failed result with the error
  \<open>No agent found for capability: c\<close> and no calls; nothing is thrown to the caller. The
  miss is thrown inside the \<^verbatim>\<open>try\<close> block, so the \<^verbatim>\<open>catch\<close> block records it and breaks:
  the plan stops there whatever the step's priority, and no later step is attempted.
\<close>

theorem executePlan_dispatch_miss_stops:
  "executePlan_loop dateNow reg pre [] w = (rs, False, w1) \<and>
   getByCapability reg (inferCapabilityFromStep step) = [] \<longrightarrow>
     executePlan dateNow reg (plan\<lparr>steps := pre @ step # post\<rparr>) w =
       (rs @ [executePlan_caught
                (Error (''No agent found for capability: '' @ inferCapabilityFromStep step))
                (dateNow w1)], w1) \<and>
     length (fst (executePlan dateNow reg (plan\<lparr>steps := pre @ step # post\<rparr>) w)) =
       length pre + 1 \<and>
     \<not> ex_success (executePlan_caught
                (Error (''No agent found for capability: '' @ inferCapabilityFromStep step))
                (dateNow w1)) \<and>
     ex_calls (executePlan_caught
                (Error (''No agent found for capability: '' @ inferCapabilityFromStep step))
                (dateNow w1)) = [] \<and>
     ex_error (executePlan_caught
                (Error (''No agent found for capability: '' @ inferCapabilityFromStep step))
                (dateNow w1)) =
       Some (''No agent found for capability: '' @ inferCapabilityFromStep step)"
proof
  let ?miss = "executePlan_caught
      (Error (''No agent found for capability: '' @ inferCapabilityFromStep step)) (dateNow w1)"
  assume h: "executePlan_loop dateNow reg pre [] w = (rs, False, w1) \<and>
     getByCapability reg (inferCapabilityFromStep step) = []"
  then have run: "executePlan_loop dateNow reg pre [] w = (rs, False, w1)"
    and none: "getByCapability reg (inferCapabilityFromStep step) = []"
    by blast+
  from none have t: "executePlan_try reg step w1 =
      (Inl (Error (''No agent found for capability: '' @ inferCapabilityFromStep step)), w1)"
    by (simp add: executePlan_try_def)
  have split: "executePlan_loop dateNow reg (pre @ step # post) [] w =
      executePlan_loop dateNow reg (step # post) rs w1"
    using executePlan_loop_append [OF run, of "step # post" "[]"] by simp
  have whole: "executePlan dateNow reg (plan\<lparr>steps := pre @ step # post\<rparr>) w =
      (rs @ [?miss], w1)"
    unfolding executePlan_def using split executePlan_loop_throw [OF t, of dateNow post rs]
    by simp
  from executePlan_loop_length [OF run] have len: "length rs = length pre" by simp
  have fields: "\<not> ex_success ?miss \<and> ex_calls ?miss = [] \<and>
      ex_error ?miss = Some (''No agent found for capability: '' @ inferCapabilityFromStep step)"
    by (simp add: executePlan_caught_def)
  from whole len fields
  show "executePlan dateNow reg (plan\<lparr>steps := pre @ step # post\<rparr>) w = (rs @ [?miss], w1) \<and>
     length (fst (executePlan dateNow reg (plan\<lparr>steps := pre @ step # post\<rparr>) w)) =
       length pre + 1 \<and>
     \<not> ex_success ?miss \<and> ex_calls ?miss = [] \<and>
     ex_error ?miss = Some (''No agent found for capability: '' @ inferCapabilityFromStep step)"
    by simp
qed

theorem executePlan_dispatch_miss_stops_witness:
  "executePlan example_clock example_registry
     (example_plan [balances_step, bridge_step, balances_step]) () =
     ([query_result example_env ''{}'',
       executePlan_caught (Error ''No agent found for capability: unknown'') 0], ())"
proof -
  have run: "executePlan_loop example_clock example_registry [balances_step] [] () =
      ([query_result example_env ''{}''], False, ())"
    by (simp add: example_tries example_results)
  have none: "getByCapability example_registry (inferCapabilityFromStep bridge_step) = []"
    by (simp add: example_capabilities example_registry_lookup)
  from executePlan_dispatch_miss_stops [where dateNow = example_clock and reg = example_registry
      and pre = "[balances_step]" and w = "()" and rs = "[query_result example_env ''{}'']"
      and ?w1.0 = "()" and step = bridge_step and plan = "example_plan []"
      and post = "[balances_step]"] run none
  show ?thesis
    by (simp add: example_plan_steps example_capabilities example_clock_def)
qed

text \<open>
  The claim as stated fails: the first step of this plan has priority \<open>low\<close> and no agent
  serves it, the second step is one the registry's Portfolio agent serves, and the plan
  returns the one failed result of the first step.
\<close>

theorem executePlan_low_priority_miss_counterexample:
  "priority bridge_step = Some PriorityLow \<and>
   getByCapability example_registry (inferCapabilityFromStep bridge_step) = [] \<and>
   getByCapability example_registry (inferCapabilityFromStep balances_step) =
     [PortfolioAgent example_env] \<and>
   executePlan example_clock example_registry (example_plan [bridge_step, balances_step]) () =
     ([executePlan_caught (Error ''No agent found for capability: unknown'') 0], ())"
  by (simp add: example_priorities example_capabilities example_registry_lookup executePlan_def
        example_plan_def example_tries example_clock_def)


subsection \<open>The loop of simulatePlan\<close>

lemma simulatePlan_loop_missing:
  "getByCapability reg (inferCapabilityFromStep s) = [] \<Longrightarrow>
   simulatePlan_loop reg (s # ss) acc w =
     simulatePlan_loop reg ss (acc @ [simulatePlan_missing (inferCapabilityFromStep s)]) w"
  by (simp add: Let_def)

lemma simulatePlan_loop_returned:
  "getByCapability reg (inferCapabilityFromStep s) = agent # others \<Longrightarrow>
   simulate agent s w = (Inr r, w1) \<Longrightarrow>
   simulatePlan_loop reg (s # ss) acc w = simulatePlan_loop reg ss (acc @ [r]) w1"
  by (simp add: Let_def)

lemma simulatePlan_loop_thrown:
  "getByCapability reg (inferCapabilityFromStep s) = agent # others \<Longrightarrow>
   simulate agent s w = (Inl e, w1) \<Longrightarrow>
   simulatePlan_loop reg (s # ss) acc w = (Inl e, w1)"
  by (simp add: Let_def)

lemma simulatePlan_loop_cases:
  obtains (missing) "getByCapability reg (inferCapabilityFromStep s) = []"
  | (returned) agent others r w1 where
      "getByCapability reg (inferCapabilityFromStep s) = agent # others"
      "simulate agent s w = (Inr r, w1)"
  | (thrown) agent others e w1 where
      "getByCapability reg (inferCapabilityFromStep s) = agent # others"
      "simulate agent s w = (Inl e, w1)"
proof (cases "getByCapability reg (inferCapabilityFromStep s)")
  case Nil
  with missing show ?thesis by blast
next
  case (Cons agent others)
  obtain o1 w1 where t: "simulate agent s w = (o1, w1)" by (cases "simulate agent s w")
  show ?thesis
  proof (cases o1)
    case (Inl e)
    with t Cons thrown show ?thesis by blast
  next
    case (Inr r)
    with t Cons returned show ?thesis by blast
  qed
qed

lemma simulatePlan_loop_acc:
  "simulatePlan_loop reg ss acc w =
     (case simulatePlan_loop reg ss [] w of
        (Inl e, w') \<Rightarrow> (Inl e, w')
      | (Inr rs, w') \<Rightarrow> (Inr (acc @ rs), w'))"
proof (induction ss arbitrary: acc w)
  case Nil
  show ?case by simp
next
  case (Cons s ss)
  show ?case
  proof (cases rule: simulatePlan_loop_cases [where reg = reg and s = s and w = w])
    case missing
    let ?m = "simulatePlan_missing (inferCapabilityFromStep s)"
    have a: "simulatePlan_loop reg ss (acc @ [?m]) w =
        (case simulatePlan_loop reg ss [] w of
           (Inl e, w') \<Rightarrow> (Inl e, w') | (Inr rs, w') \<Rightarrow> (Inr ((acc @ [?m]) @ rs), w'))"
      by (rule Cons.IH)
    have b: "simulatePlan_loop reg ss ([] @ [?m]) w =
        (case simulatePlan_loop reg ss [] w of
           (Inl e, w') \<Rightarrow> (Inl e, w') | (Inr rs, w') \<Rightarrow> (Inr (([] @ [?m]) @ rs), w'))"
      by (rule Cons.IH)
    show ?thesis
      unfolding simulatePlan_loop_missing [OF missing] a b
      by (simp split: prod.splits sum.splits)
  next
    case (returned agent others r w1)
    have a: "simulatePlan_loop reg ss (acc @ [r]) w1 =
        (case simulatePlan_loop reg ss [] w1 of
           (Inl e, w') \<Rightarrow> (Inl e, w') | (Inr rs, w') \<Rightarrow> (Inr ((acc @ [r]) @ rs), w'))"
      by (rule Cons.IH)
    have b: "simulatePlan_loop reg ss ([] @ [r]) w1 =
        (case simulatePlan_loop reg ss [] w1 of
           (Inl e, w') \<Rightarrow> (Inl e, w') | (Inr rs, w') \<Rightarrow> (Inr (([] @ [r]) @ rs), w'))"
      by (rule Cons.IH)
    show ?thesis
      unfolding simulatePlan_loop_returned [OF returned] a b
      by (simp split: prod.splits sum.splits)
  next
    case (thrown agent others e w1)
    show ?thesis unfolding simulatePlan_loop_thrown [OF thrown] by simp
  qed
qed

lemma simulatePlan_loop_length:
  "simulatePlan_loop reg ss [] w = (Inr rs, w') \<Longrightarrow> length rs = length ss"
proof (induction ss arbitrary: rs w w')
  case Nil
  then show ?case by auto
next
  case (Cons s ss)
  show ?case
  proof (cases rule: simulatePlan_loop_cases [where reg = reg and s = s and w = w])
    case missing
    let ?m = "simulatePlan_missing (inferCapabilityFromStep s)"
    from Cons.prems have run: "simulatePlan_loop reg ss ([] @ [?m]) w = (Inr rs, w')"
      unfolding simulatePlan_loop_missing [OF missing] .
    then obtain rs2 where l: "simulatePlan_loop reg ss [] w = (Inr rs2, w')" and "rs = ?m # rs2"
      using simulatePlan_loop_acc [of reg ss "[] @ [?m]" w]
      by (auto split: prod.splits sum.splits)
    with Cons.IH [OF l] show ?thesis by simp
  next
    case (returned agent others r w1)
    from Cons.prems have run: "simulatePlan_loop reg ss ([] @ [r]) w1 = (Inr rs, w')"
      unfolding simulatePlan_loop_returned [OF returned] .
    then obtain rs2 where l: "simulatePlan_loop reg ss [] w1 = (Inr rs2, w')" and "rs = r # rs2"
      using simulatePlan_loop_acc [of reg ss "[] @ [r]" w1]
      by (auto split: prod.splits sum.splits)
    with Cons.IH [OF l] show ?thesis by simp
  next
    case (thrown agent others e w1)
    with Cons.prems show ?thesis unfolding simulatePlan_loop_thrown [OF thrown] by simp
  qed
qed

lemma simulatePlan_loop_append:
  "simulatePlan_loop reg pre [] w = (Inr rs, w1) \<Longrightarrow>
   simulatePlan_loop reg (pre @ post) acc w = simulatePlan_loop reg post (acc @ rs) w1"
proof (induction pre arbitrary: rs w w1 acc)
  case Nil
  then show ?case by auto
next
  case (Cons s ss)
  show ?case
  proof (cases rule: simulatePlan_loop_cases [where reg = reg and s = s and w = w])
    case missing
    let ?m = "simulatePlan_missing (inferCapabilityFromStep s)"
    from Cons.prems have run: "simulatePlan_loop reg ss ([] @ [?m]) w = (Inr rs, w1)"
      unfolding simulatePlan_loop_missing [OF missing] .
    then obtain rs2 where l: "simulatePlan_loop reg ss [] w = (Inr rs2, w1)" and e: "rs = ?m # rs2"
      using simulatePlan_loop_acc [of reg ss "[] @ [?m]" w]
      by (auto split: prod.splits sum.splits)
    from Cons.IH [OF l, of "acc @ [?m]"] e show ?thesis
      unfolding append_Cons simulatePlan_loop_missing [OF missing] by simp
  next
    case (returned agent others r w0)
    from Cons.prems have run: "simulatePlan_loop reg ss ([] @ [r]) w0 = (Inr rs, w1)"
      unfolding simulatePlan_loop_returned [OF returned] .
    then obtain rs2 where l: "simulatePlan_loop reg ss [] w0 = (Inr rs2, w1)" and e: "rs = r # rs2"
      using simulatePlan_loop_acc [of reg ss "[] @ [r]" w0]
      by (auto split: prod.splits sum.splits)
    from Cons.IH [OF l, of "acc @ [r]"] e show ?thesis
      unfolding append_Cons simulatePlan_loop_returned [OF returned] by simp
  next
    case (thrown agent others e w0)
    with Cons.prems show ?thesis unfolding simulatePlan_loop_thrown [OF thrown] by simp
  qed
qed

lemma example_balances_simulate:
  "\<exists>r. PortfolioAgent_simulate example_env balances_step = Inr r \<and> success r \<and> risk r = LOW"
  unfolding PortfolioAgent_simulate_def validate_then_try_valid [OF example_valid(1)]
  by (simp add: PortfolioAgent_simulate_try_def)

text \<open>
  Claim C8, as amended. As long as the \<^verbatim>\<open>simulate\<close> calls return, \<^verbatim>\<open>simulatePlan\<close> returns
  one result per step, in step order: a run that returns a list returns as many results
  as the plan has steps; after the steps before it, a step that no agent serves adds the
  synthetic failed result (\<open>success = false\<close>, risk high, confidence 0, no calls) and the
  loop goes on, and a step that an agent serves adds the result of the first matching
  agent's \<^verbatim>\<open>simulate\<close>. When that \<^verbatim>\<open>simulate\<close> throws, \<^verbatim>\<open>simulatePlan\<close> throws the same
  error and returns no list.
\<close>

theorem simulatePlan_one_result_per_step:
  "(simulatePlan reg plan w = (Inr results, w') \<longrightarrow> length results = length (steps plan)) \<and>
   (simulatePlan_loop reg pre [] w = (Inr rs, w1) \<longrightarrow>
      (getByCapability reg (inferCapabilityFromStep step) = [] \<longrightarrow>
         simulatePlan reg (plan\<lparr>steps := pre @ step # post\<rparr>) w =
         simulatePlan_loop reg post
           (rs @ [simulatePlan_missing (inferCapabilityFromStep step)]) w1) \<and>
      (getByCapability reg (inferCapabilityFromStep step) = agent # others \<and>
       simulate agent step w1 = (Inr r, w2) \<longrightarrow>
         simulatePlan reg (plan\<lparr>steps := pre @ step # post\<rparr>) w =
         simulatePlan_loop reg post (rs @ [r]) w2) \<and>
      (getByCapability reg (inferCapabilityFromStep step) = agent # others \<and>
       simulate agent step w1 = (Inl e, w2) \<longrightarrow>
         simulatePlan reg (plan\<lparr>steps := pre @ step # post\<rparr>) w = (Inl e, w2))) \<and>
   simulatePlan_loop reg [] rs w1 = (Inr rs, w1) \<and>
   \<not> success (simulatePlan_missing c) \<and> risk (simulatePlan_missing c) = HIGH \<and>
   confidence (simulatePlan_missing c) = 0 \<and> calls (simulatePlan_missing c) = []"
proof (intro conjI impI)
  assume "simulatePlan reg plan w = (Inr results, w')"
  then show "length results = length (steps plan)"
    unfolding simulatePlan_def by (rule simulatePlan_loop_length)
next
  assume run: "simulatePlan_loop reg pre [] w = (Inr rs, w1)"
  have split: "simulatePlan reg (plan\<lparr>steps := pre @ step # post\<rparr>) w =
      simulatePlan_loop reg (step # post) rs w1"
    unfolding simulatePlan_def using simulatePlan_loop_append [OF run, of "step # post" "[]"]
    by simp
  {
    assume m: "getByCapability reg (inferCapabilityFromStep step) = []"
    show "simulatePlan reg (plan\<lparr>steps := pre @ step # post\<rparr>) w =
         simulatePlan_loop reg post
           (rs @ [simulatePlan_missing (inferCapabilityFromStep step)]) w1"
      unfolding split by (rule simulatePlan_loop_missing [OF m])
  }
  {
    assume "getByCapability reg (inferCapabilityFromStep step) = agent # others \<and>
       simulate agent step w1 = (Inr r, w2)"
    then have g: "getByCapability reg (inferCapabilityFromStep step) = agent # others"
      and s: "simulate agent step w1 = (Inr r, w2)" by blast+
    show "simulatePlan reg (plan\<lparr>steps := pre @ step # post\<rparr>) w =
         simulatePlan_loop reg post (rs @ [r]) w2"
      unfolding split by (rule simulatePlan_loop_returned [OF g s])
  }
  {
    assume "getByCapability reg (inferCapabilityFromStep step) = agent # others \<and>
       simulate agent step w1 = (Inl e, w2)"
    then have g: "getByCapability reg (inferCapabilityFromStep step) = agent # others"
      and s: "simulate agent step w1 = (Inl e, w2)" by blast+
    show "simulatePlan reg (plan\<lparr>steps := pre @ step # post\<rparr>) w = (Inl e, w2)"
      unfolding split by (rule simulatePlan_loop_thrown [OF g s])
  }
qed (simp_all add: simulatePlan_missing_def)

theorem simulatePlan_one_result_per_step_witness:
  "\<exists>r. simulatePlan example_registry (example_plan [bridge_step, balances_step]) () =
          (Inr [simulatePlan_missing ''unknown'', r], ()) \<and> success r"
proof -
  obtain r where r: "PortfolioAgent_simulate example_env balances_step = Inr r" and ok: "success r"
    using example_balances_simulate by blast
  have start: "simulatePlan_loop example_registry [] [] () = (Inr [], ())" by simp
  have m: "getByCapability example_registry (inferCapabilityFromStep bridge_step) = []"
    by (simp add: example_capabilities example_registry_lookup)
  have g: "getByCapability example_registry (inferCapabilityFromStep balances_step) =
      PortfolioAgent example_env # []"
    by (simp add: example_capabilities example_registry_lookup)
  have s: "simulate (PortfolioAgent example_env) balances_step () = (Inr r, ())"
    using r by (simp add: PortfolioAgent_def)
  from simulatePlan_one_result_per_step [where reg = example_registry and pre = "[]"
      and w = "()" and rs = "[]" and ?w1.0 = "()" and step = bridge_step
      and plan = "example_plan []" and post = "[balances_step]"] start m
  have first: "simulatePlan example_registry (example_plan [bridge_step, balances_step]) () =
      simulatePlan_loop example_registry [balances_step] [simulatePlan_missing ''unknown''] ()"
    by (simp add: example_plan_steps example_capabilities)
  have one: "simulatePlan_loop example_registry [bridge_step] [] () =
      (Inr [simulatePlan_missing ''unknown''], ())"
    using simulatePlan_loop_missing [OF m, of "[]" "[]" "()"] by (simp add: example_capabilities)
  from simulatePlan_one_result_per_step [where reg = example_registry and pre = "[bridge_step]"
      and w = "()" and rs = "[simulatePlan_missing ''unknown'']" and ?w1.0 = "()"
      and step = balances_step and plan = "example_plan []" and post = "[]"
      and agent = "PortfolioAgent example_env" and others = "[]" and r = r and ?w2.0 = "()"]
    one g s
  have "simulatePlan example_registry (example_plan [bridge_step, balances_step]) () =
      (Inr [simulatePlan_missing ''unknown'', r], ())"
    by (simp add: example_plan_steps)
  with ok show ?thesis by blast
qed

text \<open>
  The claim as stated fails: this plan has the one step \<^verbatim>\<open>createExecutionSteps\<close> builds
  for a \<^verbatim>\<open>portfolio_analysis\<close> request (\<^verbatim>\<open>maxGas: 0\<close>); the Portfolio agent serves it, its
  \<^verbatim>\<open>simulate\<close> throws at validation, and \<^verbatim>\<open>simulatePlan\<close> returns no result list.
\<close>

theorem simulatePlan_throws_counterexample:
  "simulatePlan example_registry (example_plan [pnl_step]) () =
     (Inl (Error ''Invalid intent: zod issues''), ())"
  by (simp add: simulatePlan_def example_plan_def example_capabilities example_registry_lookup
        PortfolioAgent_def PortfolioAgent_simulate_def
        validate_then_try_invalid example_valid example_env_def)


subsection \<open>The intent history\<close>

lemma slice_last_idem: "slice_last n (slice_last n xs @ ys) = slice_last n (xs @ ys)"
proof (cases "length xs \<le> n")
  case True
  then show ?thesis by (simp add: slice_last_def)
next
  case False
  then have "length (drop (length xs - n) xs) = n" by simp
  with False show ?thesis by (simp add: slice_last_def add.commute)
qed

lemma slice_last_short: "length xs \<le> n \<Longrightarrow> slice_last n xs = xs"
  by (simp add: slice_last_def)

lemma length_slice_last: "length (slice_last n xs) \<le> n"
  by (simp add: slice_last_def)

lemma history_of_recordIntent:
  "history_of (recordIntent now a i um) u =
     (if u = a then slice_last 50 (history_of um a @ [i]) else history_of um u)"
proof (cases "Map_get um a")
  case None
  then show ?thesis
    by (simp add: history_of_def recordIntent_def Map_get_set_same Map_get_set_other
          slice_last_def)
next
  case (Some memory)
  have cut: "(if 50 < length (recentIntents memory @ [i])
              then slice_last 50 (recentIntents memory @ [i])
              else recentIntents memory @ [i]) = slice_last 50 (recentIntents memory @ [i])"
    by (simp add: slice_last_def)
  from Some show ?thesis
    unfolding history_of_def recordIntent_def Let_def
    by (simp add: Map_get_set_same Map_get_set_other cut del: length_append)
qed

lemma record_all_snoc:
  "record_all (cs @ [c]) um = recordIntent (fst c) (fst (snd c)) (snd (snd c)) (record_all cs um)"
  by (simp add: record_all_def)

lemma history_of_record_all:
  "length (history_of um u) \<le> 50 \<Longrightarrow>
   history_of (record_all cs um) u = slice_last 50 (history_of um u @ intents_of u cs)"
proof (induction cs rule: rev_induct)
  case Nil
  then show ?case by (simp add: record_all_def intents_of_def slice_last_short)
next
  case (snoc c cs)
  from snoc have IH: "history_of (record_all cs um) u =
      slice_last 50 (history_of um u @ intents_of u cs)" by simp
  show ?case
  proof (cases "fst (snd c) = u")
    case True
    have "history_of (record_all (cs @ [c]) um) u =
        slice_last 50 (slice_last 50 (history_of um u @ intents_of u cs) @ [snd (snd c)])"
      unfolding record_all_snoc history_of_recordIntent using True IH by simp
    also have "\<dots> = slice_last 50 ((history_of um u @ intents_of u cs) @ [snd (snd c)])"
      by (rule slice_last_idem)
    also have "\<dots> = slice_last 50 (history_of um u @ intents_of u (cs @ [c]))"
      using True by (simp add: intents_of_def)
    finally show ?thesis .
  next
    case False
    then have "history_of (record_all (cs @ [c]) um) u = history_of (record_all cs um) u"
      unfolding record_all_snoc history_of_recordIntent by simp
    with IH False show ?thesis by (simp add: intents_of_def)
  qed
qed

lemma Map_get_delete: "Map_get (Map_delete k kvs) k' = (if k' = k then None else Map_get kvs k')"
  by (induction kvs) (auto simp: Map_delete_def)

text \<open>
  Claim C9. After any sequence of \<^verbatim>\<open>recordIntent\<close> calls on a fresh router, the stored
  history of a user is the last 50 of the intents recorded for that user, oldest first,
  so it never has more than 50 entries; run from a memory whose history for the user is
  within the cap, the calls leave the last 50 of the old history followed by the newly
  recorded intents; one call appends the intent to the user's history
  and keeps its last 50 entries, leaves every other user's history as it was, and so
  preserves the cap; \<^verbatim>\<open>clearUserMemory\<close> removes the user's entry from the memory Map and
  nobody else's.
\<close>

theorem recordIntent_history_bounded:
  "history_of (record_all cs []) user = slice_last 50 (intents_of user cs) \<and>
   length (history_of (record_all cs []) user) \<le> 50 \<and>
   (length (history_of um user) \<le> 50 \<longrightarrow>
      history_of (record_all cs um) user =
        slice_last 50 (history_of um user @ intents_of user cs)) \<and>
   history_of (recordIntent now user intent um) user =
     slice_last 50 (history_of um user @ [intent]) \<and>
   (other \<noteq> user \<longrightarrow> history_of (recordIntent now user intent um) other = history_of um other) \<and>
   ((\<forall>u. length (history_of um u) \<le> 50) \<longrightarrow>
      (\<forall>u. length (history_of (recordIntent now user intent um) u) \<le> 50)) \<and>
   Map_get (clearUserMemory user um) user = None \<and>
   user \<notin> fst ` set (clearUserMemory user um) \<and>
   (other \<noteq> user \<longrightarrow> Map_get (clearUserMemory user um) other = Map_get um other)"
proof -
  have h0: "length (history_of [] user) \<le> 50" by (simp add: history_of_def)
  have all: "history_of (record_all cs []) user = slice_last 50 (intents_of user cs)"
    using history_of_record_all [OF h0, of cs] by (simp add: history_of_def)
  have cap: "length (history_of (record_all cs []) user) \<le> 50"
    unfolding all by (rule length_slice_last)
  have from_any: "length (history_of um user) \<le> 50 \<longrightarrow>
      history_of (record_all cs um) user =
        slice_last 50 (history_of um user @ intents_of user cs)"
    using history_of_record_all [of um user cs] by blast
  have one: "history_of (recordIntent now user intent um) user =
      slice_last 50 (history_of um user @ [intent])"
    by (simp add: history_of_recordIntent)
  have others: "other \<noteq> user \<longrightarrow>
      history_of (recordIntent now user intent um) other = history_of um other"
    by (simp add: history_of_recordIntent)
  have keeps: "(\<forall>u. length (history_of um u) \<le> 50) \<longrightarrow>
      (\<forall>u. length (history_of (recordIntent now user intent um) u) \<le> 50)"
    unfolding history_of_recordIntent
    using length_slice_last [of 50 "history_of um user @ [intent]"] by simp
  have gone: "Map_get (clearUserMemory user um) user = None"
    by (simp add: clearUserMemory_def Map_get_delete)
  have nokey: "user \<notin> fst ` set (clearUserMemory user um)"
    by (auto simp: clearUserMemory_def Map_delete_def)
  have rest: "other \<noteq> user \<longrightarrow> Map_get (clearUserMemory user um) other = Map_get um other"
    by (simp add: clearUserMemory_def Map_get_delete)
  show ?thesis
    by (intro conjI) (rule all cap from_any one others keeps gone nokey rest)+
qed

theorem recordIntent_history_bounded_witness:
  "history_of (record_all [(1, ''0xA'', ''swap_tokens''), (2, ''0xB'', ''stake_tokens''),
                            (3, ''0xA'', ''claim_rewards'')] []) ''0xA'' =
     [''swap_tokens'', ''claim_rewards''] \<and>
   length (history_of (record_all (replicate 51 (0, ''0xA'', ''swap_tokens'')) []) ''0xA'') = 50 \<and>
   history_of (recordIntent 4 ''0xA'' ''get_news'' []) ''0xB'' = []"
proof -
  have ne: "''0xB'' \<noteq> ''0xA''" by simp
  from recordIntent_history_bounded [where cs = "[(1, ''0xA'', ''swap_tokens''),
      (2, ''0xB'', ''stake_tokens''), (3, ''0xA'', ''claim_rewards'')]" and user = "''0xA''"]
  have 1: "history_of (record_all [(1, ''0xA'', ''swap_tokens''), (2, ''0xB'', ''stake_tokens''),
                            (3, ''0xA'', ''claim_rewards'')] []) ''0xA'' =
     [''swap_tokens'', ''claim_rewards'']"
    by (simp add: intents_of_def slice_last_def)
  from recordIntent_history_bounded [where cs = "replicate 51 (0, ''0xA'', ''swap_tokens'')"
      and user = "''0xA''"]
  have 2: "length (history_of (record_all (replicate 51 (0, ''0xA'', ''swap_tokens'')) []) ''0xA'')
      = 50"
    by (simp add: intents_of_def slice_last_def)
  from recordIntent_history_bounded [where user = "''0xA''" and other = "''0xB''" and um = "[]"
      and now = 4 and intent = "''get_news''"] ne
  have 3: "history_of (recordIntent 4 ''0xA'' ''get_news'' []) ''0xB'' = []"
    by (simp add: history_of_def)
  from 1 2 3 show ?thesis by blast
qed


subsection \<open>Validation and failure in the agents\<close>
















end
